theory Spec2Isabelle
  imports Complex_Main
begin

section \<open>Interactive-element detection pass (\<open>window.domTreeResult\<close>)\<close>

text \<open>
  A shallow embedding of the page script that computes the list of interactive-element
  descriptors of a rendered page. The browser is the environment: every DOM query the
  script makes (attributes, computed style, bounding box, layout metrics, hit testing,
  frame access) is read from an immutable node view, as one synchronous pass sees it.
  JavaScript numbers are modelled as exact rationals (\<open>rat\<close>), integer-valued DOM
  metrics and millisecond clocks as \<open>int\<close>; rounding of IEEE doubles is not modelled.

  Host queries on an element answer and do not throw, so of the script's
  \<open>try/catch\<close> guards only two have a reachable handler: reading the document of a
  cross-origin iframe, and \<open>getEventListeners\<close>. The overlays that
  \<open>doHighlightElements\<close> draws are not part of the node view.
\<close>

subsection \<open>Strings\<close>

text \<open>
  Strings are lists of characters; \<open>trim\<close> and \<open>toLowerCase\<close> treat the ASCII
  white space and the letters \<open>A\<close> to \<open>Z\<close>.
\<close>

definition isSpace :: "char \<Rightarrow> bool" where
  "isSpace ch = (ch = CHR '' '' \<or> ch = CHR 0x09 \<or> ch = CHR 0x0A \<or> ch = CHR 0x0B
                 \<or> ch = CHR 0x0C \<or> ch = CHR 0x0D)"

definition trim :: "string \<Rightarrow> string" where
  "trim s = rev (dropWhile isSpace (rev (dropWhile isSpace s)))"

definition lowerChar :: "char \<Rightarrow> char" where
  "lowerChar ch =
     (let n = (of_char ch :: nat) in if 65 \<le> n \<and> n \<le> 90 then char_of (n + 32) else ch)"

definition toLowerCase :: "string \<Rightarrow> string" where
  "toLowerCase s = map lowerChar s"

fun startsWith :: "string \<Rightarrow> string \<Rightarrow> bool" where
  "startsWith s [] = True"
| "startsWith [] (p # ps) = False"
| "startsWith (ch # cs) (p # ps) = (ch = p \<and> startsWith cs ps)"

fun str_includes :: "string \<Rightarrow> string \<Rightarrow> bool" where
  "str_includes [] sub = (sub = [])"
| "str_includes (ch # cs) sub = (startsWith (ch # cs) sub \<or> str_includes cs sub)"

text \<open>
  The tokens of a string, as \<open>classList\<close> reads the class attribute: split on space,
  tab, line feed, form feed and carriage return.
\<close>

definition isClassSpace :: "char \<Rightarrow> bool" where
  "isClassSpace ch = (ch = CHR '' '' \<or> ch = CHR 0x09 \<or> ch = CHR 0x0A \<or> ch = CHR 0x0C
                      \<or> ch = CHR 0x0D)"

fun tokensAcc :: "string \<Rightarrow> string \<Rightarrow> string list" where
  "tokensAcc cur [] = (if cur = [] then [] else [rev cur])"
| "tokensAcc cur (ch # cs) =
     (if isClassSpace ch then (if cur = [] then tokensAcc [] cs else rev cur # tokensAcc [] cs)
      else tokensAcc (ch # cur) cs)"

definition tokens :: "string \<Rightarrow> string list" where
  "tokens s = tokensAcc [] s"

text \<open>
  \<open>parseInt\<close> on a decimal string: leading whitespace, an optional sign, then digits;
  \<open>None\<close> stands for \<open>NaN\<close> (every comparison with it is false). The prefix
  \<open>0x\<close> is not recognised; a computed \<open>z-index\<close> is \<open>auto\<close> or a decimal integer.
\<close>

definition isDigit :: "char \<Rightarrow> bool" where
  "isDigit ch = (let n = (of_char ch :: nat) in 48 \<le> n \<and> n \<le> 57)"

definition digitsValue :: "string \<Rightarrow> nat" where
  "digitsValue ds = foldl (\<lambda>acc ch. 10 * acc + ((of_char ch :: nat) - 48)) 0 ds"

definition parseInt :: "string \<Rightarrow> int option" where
  "parseInt s =
     (let t = dropWhile isSpace s;
          neg = (case t of [] \<Rightarrow> False | ch # _ \<Rightarrow> ch = CHR ''-'');
          u = (case t of [] \<Rightarrow> [] | ch # r \<Rightarrow> if ch = CHR ''-'' \<or> ch = CHR ''+'' then r else t);
          ds = takeWhile isDigit u
      in if ds = [] then None
         else Some (if neg then - int (digitsValue ds) else int (digitsValue ds)))"

subsection \<open>Geometry, style and the node view\<close>

record rect =
  rect_left :: rat
  rect_top :: rat
  rect_width :: rat
  rect_height :: rat

definition rect_right :: "rect \<Rightarrow> rat" where
  "rect_right r = rect_left r + rect_width r"

definition rect_bottom :: "rect \<Rightarrow> rat" where
  "rect_bottom r = rect_top r + rect_height r"

record style =
  cursor :: string
  visibility :: string
  display :: string
  opacity :: string
  border :: string
  backgroundColor :: string
  zIndex :: string
  position :: string
  overflow :: string
  overflowX :: string
  overflowY :: string

text \<open>
  What \<open>window.getEventListeners?.(el)\<close> does: the function is absent outside a
  developer console (the script then sees no listeners), or it answers with the event
  types that have a listener, or it throws (the script then falls back to the
  \<open>on*\<close> handler properties).
\<close>

datatype listener_registry = Unavailable | Registered "string list" | Throws

record props =
  nodeId :: nat
  tagName :: string
  attributes :: "(string \<times> string) list"
  textContent :: string
  childCount :: nat
  onHandlers :: "string list"
  listenerRegistry :: listener_registry
  isContentEditable :: bool
  draggable :: bool
  inlineDisplay :: string
  computedStyle :: style
  boundingClientRect :: rect
  offsetWidth :: int
  offsetHeight :: int
  clientWidth :: int
  clientHeight :: int
  scrollWidth :: int
  scrollHeight :: int

text \<open>
  An element is its node view together with its \<open>parentElement\<close> chain. \<open>nodeId\<close> is
  the identity of the node: \<open>===\<close> on elements is equality of \<open>nodeId\<close>. \<open>tagName\<close>
  holds \<open>element.tagName.toLowerCase()\<close>; attribute names are lower case.
\<close>

datatype element = Element props "element option"

fun el_props :: "element \<Rightarrow> props" where
  "el_props (Element p par) = p"

fun parentElement :: "element \<Rightarrow> element option" where
  "parentElement (Element p par) = par"

fun ancestors :: "element \<Rightarrow> element list" where
  "ancestors (Element p None) = []"
| "ancestors (Element p (Some q)) = q # ancestors q"

definition el_id :: "element \<Rightarrow> nat" where
  "el_id el = nodeId (el_props el)"

definition el_tag :: "element \<Rightarrow> string" where
  "el_tag el = tagName (el_props el)"

definition getAttribute :: "element \<Rightarrow> string \<Rightarrow> string option" where
  "getAttribute el name = map_of (attributes (el_props el)) name"

definition hasAttribute :: "element \<Rightarrow> string \<Rightarrow> bool" where
  "hasAttribute el name = (getAttribute el name \<noteq> None)"

text \<open>JavaScript truthiness of an attribute value: present and not the empty string.\<close>

definition truthy :: "string option \<Rightarrow> bool" where
  "truthy v = (case v of None \<Rightarrow> False | Some s \<Rightarrow> s \<noteq> [])"

definition attrIs :: "element \<Rightarrow> string \<Rightarrow> string \<Rightarrow> bool" where
  "attrIs el name v = (getAttribute el name = Some v)"

definition attrOrEmpty :: "element \<Rightarrow> string \<Rightarrow> string" where
  "attrOrEmpty el name = (case getAttribute el name of None \<Rightarrow> [] | Some v \<Rightarrow> v)"

definition className :: "element \<Rightarrow> string" where
  "className el = attrOrEmpty el ''class''"

definition classListContains :: "element \<Rightarrow> string \<Rightarrow> bool" where
  "classListContains el cls = (cls \<in> set (tokens (className el)))"

definition hasHandler :: "element \<Rightarrow> string \<Rightarrow> bool" where
  "hasHandler el ev = (ev \<in> set (onHandlers (el_props el)))"

subsection \<open>The geometry and style cache\<close>

record window_size =
  ws_width :: int
  ws_height :: int

record dom_cache =
  boundingRects :: "nat \<rightharpoonup> rect"
  computedStyles :: "nat \<rightharpoonup> style"
  previousWindowSize :: window_size
  lastRunTimestamp :: int

text \<open>The object literal \<open>DOM_CACHE\<close>, built at the start of every invocation.\<close>

definition DOM_CACHE_new :: "window_size \<Rightarrow> int \<Rightarrow> dom_cache" where
  "DOM_CACHE_new currentWindowSize now =
     \<lparr>boundingRects = Map.empty, computedStyles = Map.empty,
      previousWindowSize = currentWindowSize, lastRunTimestamp = now\<rparr>"

text \<open>
  \<open>DOM_CACHE.clearCache(force)\<close>; \<open>currentWindowSize\<close> and \<open>currentTime\<close> are the
  readings of \<open>window.innerWidth/innerHeight\<close> and \<open>Date.now()\<close> the call makes.
  The result is the returned flag and the cache object after the call.
\<close>

definition clearCache :: "bool \<Rightarrow> window_size \<Rightarrow> int \<Rightarrow> dom_cache \<Rightarrow> bool \<times> dom_cache" where
  "clearCache force currentWindowSize currentTime this =
     (if force
         \<or> ws_width currentWindowSize \<noteq> ws_width (previousWindowSize this)
         \<or> ws_height currentWindowSize \<noteq> ws_height (previousWindowSize this)
         \<or> currentTime - lastRunTimestamp this > 30000
      then (True, this\<lparr>boundingRects := Map.empty, computedStyles := Map.empty,
                       previousWindowSize := currentWindowSize,
                       lastRunTimestamp := currentTime\<rparr>)
      else (False, this\<lparr>lastRunTimestamp := currentTime\<rparr>))"

text \<open>
  \<open>getCachedBoundingRect\<close> and \<open>getCachedComputedStyle\<close>: a hit returns the stored
  snapshot, a miss asks the host. The script also stores the host's answer on a miss;
  node views do not change during a pass, so a later miss would return that same answer
  and the store is not observable: the cache is read-only here. The null branch of
  \<open>getCachedBoundingRect\<close> is kept in its type (\<open>None\<close>), although
  \<open>getBoundingClientRect\<close> always answers for an element.
\<close>

definition getCachedBoundingRect :: "dom_cache \<Rightarrow> element \<Rightarrow> rect option" where
  "getCachedBoundingRect c el =
     (case boundingRects c (el_id el) of
        Some r \<Rightarrow> Some r
      | None \<Rightarrow> Some (boundingClientRect (el_props el)))"

definition getCachedComputedStyle :: "dom_cache \<Rightarrow> element \<Rightarrow> style" where
  "getCachedComputedStyle c el =
     (case computedStyles c (el_id el) of
        Some s \<Rightarrow> s
      | None \<Rightarrow> computedStyle (el_props el))"

subsection \<open>Configuration, window and documents\<close>

record args =
  doHighlightElements :: bool
  focusHighlightIndex :: int
  viewportExpansion :: rat
  debugMode :: bool

text \<open>
  \<open>window.innerWidth/innerHeight\<close> and the metrics of \<open>document.documentElement\<close>
  of the top-level document.
\<close>

record window =
  innerWidth :: int
  innerHeight :: int
  docClientWidth :: int
  docClientHeight :: int
  docScrollWidth :: int
  docScrollHeight :: int

text \<open>
  A document as the script queries it: its elements in document order
  (\<open>querySelectorAll('*')\<close>), the identities of \<open>documentElement\<close> and \<open>body\<close>, its
  hit test \<open>elementFromPoint\<close>, and for each shadow host the elements of its shadow tree.
\<close>

record document =
  allElements :: "element list"
  documentElementId :: nat
  bodyId :: nat
  elementFromPoint :: "rat \<Rightarrow> rat \<Rightarrow> element option"
  shadowRoots :: "(nat \<times> element list) list"

text \<open>
  Reading \<open>iframe.contentDocument || iframe.contentWindow?.document\<close>: no document,
  a same-origin document, or a security exception (cross-origin frame).
\<close>

datatype frame_access = NoDocument | SameOrigin document | SecurityError

record page =
  win :: window
  mainDocument :: document
  frames :: "(nat \<times> frame_access) list"

definition frameAccess :: "page \<Rightarrow> element \<Rightarrow> frame_access" where
  "frameAccess pg iframe =
     (case map_of (frames pg) (el_id iframe) of None \<Rightarrow> NoDocument | Some a \<Rightarrow> a)"

definition shadowRoot :: "document \<Rightarrow> element \<Rightarrow> element list option" where
  "shadowRoot doc host = map_of (shadowRoots doc) (el_id host)"

subsection \<open>Visibility classifier\<close>

definition viewportWidth :: "window \<Rightarrow> int" where
  "viewportWidth w = (if innerWidth w \<noteq> 0 then innerWidth w else docClientWidth w)"

definition viewportHeight :: "window \<Rightarrow> int" where
  "viewportHeight w = (if innerHeight w \<noteq> 0 then innerHeight w else docClientHeight w)"

definition isInViewport :: "args \<Rightarrow> window \<Rightarrow> dom_cache \<Rightarrow> element \<Rightarrow> bool" where
  "isInViewport a w c el =
     (if viewportExpansion a = - 1 then True
      else case getCachedBoundingRect c el of
        None \<Rightarrow> False
      | Some rect \<Rightarrow>
          \<not> (rect_bottom rect < - viewportExpansion a
             \<or> rect_top rect > of_int (viewportHeight w) + viewportExpansion a
             \<or> rect_right rect < - viewportExpansion a
             \<or> rect_left rect > of_int (viewportWidth w) + viewportExpansion a))"

definition isElementVisible :: "dom_cache \<Rightarrow> element \<Rightarrow> bool" where
  "isElementVisible c el =
     (if offsetWidth (el_props el) = 0 \<and> offsetHeight (el_props el) = 0
      then (el_tag el = ''input'' \<and> attrIs el ''type'' ''file''
            \<and> (classListContains el ''hidden'' \<or> inlineDisplay (el_props el) = ''none''))
      else (let style = getCachedComputedStyle c el
            in visibility style \<noteq> ''hidden'' \<and> display style \<noteq> ''none''
               \<and> opacity style \<noteq> ''0''))"

text \<open>
  The walk \<open>while (current && current !== documentElement)\<close> from the hit element up
  its parent chain, looking for \<open>target\<close>.
\<close>

fun chainContains :: "nat \<Rightarrow> nat \<Rightarrow> element \<Rightarrow> bool" where
  "chainContains stop target (Element p par) =
     (if nodeId p = stop then False
      else if nodeId p = target then True
      else (case par of None \<Rightarrow> False | Some q \<Rightarrow> chainContains stop target q))"

definition isTopElement :: "window \<Rightarrow> document \<Rightarrow> dom_cache \<Rightarrow> element \<Rightarrow> bool" where
  "isTopElement w doc c el =
     (case getCachedBoundingRect c el of
        None \<Rightarrow> False
      | Some rect \<Rightarrow>
          if \<not> (rect_left rect < of_int (innerWidth w) \<and> rect_right rect > 0
                \<and> rect_top rect < of_int (innerHeight w) \<and> rect_bottom rect > 0)
          then False
          else (case elementFromPoint doc (rect_left rect + rect_width rect / 2)
                                          (rect_top rect + rect_height rect / 2) of
                  None \<Rightarrow> False
                | Some topEl \<Rightarrow> chainContains (documentElementId doc) (el_id el) topEl))"

subsection \<open>Interactivity classifier\<close>

definition attrIncludes :: "element \<Rightarrow> string \<Rightarrow> string \<Rightarrow> bool" where
  "attrIncludes el name sub =
     (case getAttribute el name of None \<Rightarrow> False | Some v \<Rightarrow> str_includes v sub)"

definition attrLowerIncludes :: "element \<Rightarrow> string \<Rightarrow> string \<Rightarrow> bool" where
  "attrLowerIncludes el name sub =
     (case getAttribute el name of None \<Rightarrow> False
      | Some v \<Rightarrow> str_includes (toLowerCase v) sub)"

text \<open>\<open>element.closest(selector)\<close> is truthy: the element or an ancestor matches.\<close>

definition closest :: "(element \<Rightarrow> bool) \<Rightarrow> element \<Rightarrow> bool" where
  "closest sel el = list_ex sel (el # ancestors el)"

definition doesElementHaveInteractivePointer :: "dom_cache \<Rightarrow> element \<Rightarrow> bool" where
  "doesElementHaveInteractivePointer c el =
     (if el_tag el = ''html'' then False
      else cursor (getCachedComputedStyle c el)
             \<in> set [''pointer'', ''move'', ''text'', ''grab'', ''cell''])"

definition interactiveElements :: "string list" where
  "interactiveElements =
     [''a'', ''button'', ''details'', ''embed'', ''input'', ''menu'', ''menuitem'',
      ''object'', ''select'', ''textarea'', ''canvas'', ''summary'', ''dialog'', ''banner'']"

definition interactiveRoles :: "string list" where
  "interactiveRoles =
     [''button-icon'', ''dialog'', ''button-text-icon-only'', ''treeitem'', ''alert'',
      ''grid'', ''progressbar'', ''radio'', ''checkbox'', ''menuitem'', ''option'',
      ''switch'', ''dropdown'', ''scrollbar'', ''combobox'', ''a-button-text'', ''button'',
      ''region'', ''textbox'', ''tabpanel'', ''tab'', ''click'', ''button-text'',
      ''spinbutton'', ''a-button-inner'', ''link'', ''menu'', ''slider'', ''listbox'',
      ''a-dropdown-button'', ''button-icon-only'', ''searchbox'', ''menuitemradio'',
      ''tooltip'', ''tree'', ''menuitemcheckbox'']"

definition roleIn :: "string option \<Rightarrow> string list \<Rightarrow> bool" where
  "roleIn r rs = (case r of None \<Rightarrow> False | Some v \<Rightarrow> v \<in> set rs)"

text \<open>\<open>getEventListeners(el)\<close>: the event types that have at least one listener.\<close>

definition getEventListeners :: "element \<Rightarrow> string list" where
  "getEventListeners el =
     (case listenerRegistry (el_props el) of
        Unavailable \<Rightarrow> []
      | Registered types \<Rightarrow> types
      | Throws \<Rightarrow>
          filter (hasHandler el)
            [''click'', ''mousedown'', ''mouseup'', ''touchstart'', ''touchend'',
             ''keydown'', ''keyup'', ''focus'', ''blur''])"

definition isCookieBannerElement :: "element \<Rightarrow> bool" where
  "isCookieBannerElement el =
     (closest (\<lambda>a. attrIncludes a ''id'' ''onetrust'') el
      \<or> closest (\<lambda>a. attrIncludes a ''class'' ''onetrust'') el
      \<or> closest (\<lambda>a. attrIs a ''data-nosnippet'' ''true'') el
      \<or> closest (\<lambda>a. attrIncludes a ''aria-label'' ''cookie'') el)"

definition isBannerButton :: "element \<Rightarrow> bool" where
  "isBannerButton el =
     (el_tag el = ''button''
      \<or> attrIs el ''role'' ''button''
      \<or> hasHandler el ''click''
      \<or> truthy (getAttribute el ''onclick'')
      \<or> (classListContains el ''ot-sdk-button'' \<or> classListContains el ''accept-button''
          \<or> classListContains el ''reject-button'')
      \<or> attrLowerIncludes el ''aria-label'' ''accept''
      \<or> attrLowerIncludes el ''aria-label'' ''reject'')"

definition hasDropdownMarker :: "element \<Rightarrow> bool" where
  "hasDropdownMarker el =
     (classListContains el ''button''
      \<or> classListContains el ''dropdown-toggle''
      \<or> truthy (getAttribute el ''data-index'')
      \<or> attrIs el ''data-toggle'' ''dropdown''
      \<or> attrIs el ''aria-haspopup'' ''true'')"

definition hasAddressInputClass :: "element \<Rightarrow> bool" where
  "hasAddressInputClass el =
     (classListContains el ''address-input__container__input''
      \<or> classListContains el ''nav-btn''
      \<or> classListContains el ''pull-left'')"

definition parentIsNotBody :: "element \<Rightarrow> bool" where
  "parentIsNotBody el =
     (case parentElement el of None \<Rightarrow> True | Some par \<Rightarrow> el_tag par \<noteq> ''body'')"

definition hasInteractiveRole :: "element \<Rightarrow> bool" where
  "hasInteractiveRole el =
     (hasAddressInputClass el
      \<or> el_tag el \<in> set interactiveElements
      \<or> roleIn (getAttribute el ''role'') interactiveRoles
      \<or> roleIn (getAttribute el ''aria-role'') interactiveRoles
      \<or> (getAttribute el ''tabindex'' \<noteq> None
          \<and> getAttribute el ''tabindex'' \<noteq> Some ''-1''
          \<and> parentIsNotBody el)
      \<or> attrIs el ''data-action'' ''a-dropdown-select''
      \<or> attrIs el ''data-action'' ''a-dropdown-button'')"

definition isCookieBanner :: "element \<Rightarrow> bool" where
  "isCookieBanner el =
     (str_includes (toLowerCase (attrOrEmpty el ''id'')) ''cookie''
      \<or> str_includes (toLowerCase (attrOrEmpty el ''id'')) ''consent''
      \<or> str_includes (toLowerCase (attrOrEmpty el ''id'')) ''notice''
      \<or> (classListContains el ''otCenterRounded'' \<or> classListContains el ''ot-sdk-container'')
      \<or> attrIs el ''data-nosnippet'' ''true''
      \<or> attrLowerIncludes el ''aria-label'' ''cookie''
      \<or> attrLowerIncludes el ''aria-label'' ''consent''
      \<or> (el_tag el = ''div''
          \<and> (str_includes (toLowerCase (attrOrEmpty el ''id'')) ''onetrust''
              \<or> (classListContains el ''onetrust'' \<or> classListContains el ''cookie''
                  \<or> classListContains el ''consent''))))"

definition isInCookieBanner :: "element \<Rightarrow> bool" where
  "isInCookieBanner el =
     closest (\<lambda>a. attrIncludes a ''id'' ''cookie'' \<or> attrIncludes a ''id'' ''consent''
                 \<or> attrIncludes a ''class'' ''cookie'' \<or> attrIncludes a ''class'' ''consent''
                 \<or> attrIncludes a ''id'' ''onetrust'') el"

definition hasClickHandler :: "element \<Rightarrow> bool" where
  "hasClickHandler el =
     (hasHandler el ''click''
      \<or> getAttribute el ''onclick'' \<noteq> None
      \<or> hasAttribute el ''ng-click''
      \<or> hasAttribute el ''@click''
      \<or> hasAttribute el ''v-on:click'')"

definition hasClickListeners :: "element \<Rightarrow> bool" where
  "hasClickListeners el =
     (let listeners = getEventListeners el
      in ''click'' \<in> set listeners \<or> ''mousedown'' \<in> set listeners
         \<or> ''mouseup'' \<in> set listeners \<or> ''touchstart'' \<in> set listeners
         \<or> ''touchend'' \<in> set listeners)"

definition hasAriaProps :: "element \<Rightarrow> bool" where
  "hasAriaProps el =
     (hasAttribute el ''aria-expanded'' \<or> hasAttribute el ''aria-pressed''
      \<or> hasAttribute el ''aria-selected'' \<or> hasAttribute el ''aria-checked'')"

definition isContentEditableElement :: "element \<Rightarrow> bool" where
  "isContentEditableElement el =
     (attrIs el ''contenteditable'' ''true''
      \<or> isContentEditable (el_props el)
      \<or> attrOrEmpty el ''id'' = ''tinymce''
      \<or> classListContains el ''mce-content-body''
      \<or> (el_tag el = ''body''
          \<and> (case getAttribute el ''data-id'' of None \<Rightarrow> False
              | Some v \<Rightarrow> startsWith v ''mce_'')))"

definition isDraggable :: "element \<Rightarrow> bool" where
  "isDraggable el = (draggable (el_props el) \<or> attrIs el ''draggable'' ''true'')"

text \<open>
  \<open>isInteractiveElement\<close>, in the order of the source. The model's elements are
  element nodes, so the guard on \<open>null\<close> and \<open>nodeType\<close> never fires.
\<close>

definition isInteractiveElement :: "dom_cache \<Rightarrow> element \<Rightarrow> bool" where
  "isInteractiveElement c el =
     (if attrIs el ''role'' ''presentation'' then False
      else if doesElementHaveInteractivePointer c el then True
      else if isCookieBannerElement el \<and> isBannerButton el then True
      else if hasDropdownMarker el then True
      else if hasInteractiveRole el then True
      else if isCookieBanner el then True
      else if isInCookieBanner el
              \<and> (el_tag el = ''button'' \<or> attrIs el ''role'' ''button''
                  \<or> classListContains el ''button'' \<or> hasHandler el ''click''
                  \<or> truthy (getAttribute el ''onclick''))
           then True
      else (hasAriaProps el \<or> hasClickHandler el \<or> hasClickListeners el
            \<or> isDraggable el \<or> isContentEditableElement el))"

subsection \<open>Priority score\<close>

text \<open>
  The tables \<open>tagPriority\<close> and \<open>rolePriority\<close>; a missing key reads
  \<open>undefined\<close> (\<open>None\<close>). Tags and roles are assumed not to name members of
  \<open>Object.prototype\<close>.
\<close>

definition tagPriority :: "string \<Rightarrow> nat option" where
  "tagPriority = map_of
     [(''a'', 10), (''button'', 10), (''input'', 10), (''select'', 10), (''textarea'', 10),
      (''canvas'', 9), (''video'', 9), (''audio'', 9),
      (''label'', 8), (''option'', 8), (''fieldset'', 8),
      (''summary'', 9), (''details'', 8), (''li'', 8), (''td'', 8), (''th'', 8), (''tr'', 7),
      (''form'', 7), (''dialog'', 9), (''menu'', 8),
      (''div'', 5), (''span'', 3), (''i'', 2), (''img'', 7), (''p'', 4), (''hr'', 3),
      (''br'', 1)]"

definition rolePriority :: "string \<Rightarrow> nat option" where
  "rolePriority = map_of
     [(''button'', 10), (''link'', 10), (''menuitem'', 9), (''tab'', 9), (''checkbox'', 9),
      (''radio'', 9), (''combobox'', 9), (''switch'', 9), (''textbox'', 9),
      (''searchbox'', 9), (''spinbutton'', 8), (''slider'', 8),
      (''tabpanel'', 8), (''dialog'', 9), (''toolbar'', 8), (''menu'', 8), (''menubar'', 8),
      (''tooltip'', 7),
      (''treeitem'', 8), (''listitem'', 8), (''gridcell'', 8), (''row'', 7), (''cell'', 7),
      (''presentation'', 2), (''none'', 1), (''img'', 6)]"

definition baseScore :: "element \<Rightarrow> rat" where
  "baseScore el =
     max (of_nat (case tagPriority (el_tag el) of None \<Rightarrow> 5 | Some n \<Rightarrow> n))
         (of_nat (case getAttribute el ''role'' of None \<Rightarrow> 0
                  | Some r \<Rightarrow> (case rolePriority r of None \<Rightarrow> 0 | Some n \<Rightarrow> n)))"

definition attributeBonus :: "element \<Rightarrow> rat" where
  "attributeBonus el =
     (if attrIs el ''contenteditable'' ''true'' \<or> isContentEditable (el_props el) then 5 else 0)
     + (if truthy (getAttribute el ''onclick'') \<or> hasHandler el ''click'' then 4 else 0)
     + (if truthy (getAttribute el ''href'') then (if el_tag el = ''a'' then 4 else 2) else 0)
     + (if truthy (getAttribute el ''aria-expanded'') then 3 else 0)
     + (if truthy (getAttribute el ''aria-controls'') then 3 else 0)
     + (if truthy (getAttribute el ''aria-checked'') then 3 else 0)
     + (if truthy (getAttribute el ''aria-selected'') then 3 else 0)
     + (if truthy (getAttribute el ''aria-pressed'') then 3 else 0)
     + (if truthy (getAttribute el ''aria-haspopup'') then 2 else 0)
     + (if truthy (getAttribute el ''aria-label'') then 1 else 0)
     + (if attrIs el ''type'' ''submit'' \<or> attrIs el ''type'' ''button'' then 3 else 0)
     + (if truthy (getAttribute el ''placeholder'') then 1 else 0)
     + (if truthy (getAttribute el ''required'') then 1 else 0)
     + (if attrIs el ''draggable'' ''true'' then 2 else 0)
     + (if truthy (getAttribute el ''tabindex'') \<and> getAttribute el ''tabindex'' \<noteq> Some ''-1''
        then 2 else 0)
     + (if truthy (getAttribute el ''data-action'') then 2 else 0)
     + (if truthy (getAttribute el ''data-toggle'') then 2 else 0)
     + (if truthy (getAttribute el ''data-target'') then 1 else 0)
     + (if truthy (getAttribute el ''id'') then 1 else 0)
     + (if truthy (getAttribute el ''name'') then 1 else 0)"

definition contentBonus :: "element \<Rightarrow> rat" where
  "contentBonus el =
     (let text = trim (textContent (el_props el))
      in if length text > 0 then min 2 (of_nat (length text) / 20)
         else if (el_tag el = ''div'' \<or> el_tag el = ''span'') \<and> \<not> childCount (el_props el) > 0
         then - 3 else 0)"

definition styleBonus :: "style \<Rightarrow> rat" where
  "styleBonus style =
     (if cursor style = ''pointer'' then 2 else 0)
     + (if cursor style = ''grab'' \<or> cursor style = ''grabbing'' then 2 else 0)
     + (if border style \<noteq> [] \<and> border style \<noteq> ''none'' \<and> \<not> startsWith (border style) ''0''
        then 1 / 2 else 0)
     + (if backgroundColor style \<noteq> [] \<and> backgroundColor style \<noteq> ''transparent''
           \<and> backgroundColor style \<noteq> ''rgba(0, 0, 0, 0)''
        then 1 / 2 else 0)
     + (case parseInt (zIndex style) of
          None \<Rightarrow> 0
        | Some z \<Rightarrow> if zIndex style \<noteq> [] \<and> z > 1 then min 1 (of_int z / 100) else 0)
     + (if position style = ''fixed'' \<or> position style = ''absolute'' then 1 else 0)"

definition sizeBonus :: "dom_cache \<Rightarrow> element \<Rightarrow> rat" where
  "sizeBonus c el =
     (case getCachedBoundingRect c el of
        None \<Rightarrow> 0
      | Some elRect \<Rightarrow>
          (let area = rect_width elRect * rect_height elRect
           in if area > 10000 then 1
              else if area < 400 \<and> el_tag el \<noteq> ''button'' \<and> el_tag el \<noteq> ''input'' then - 1
              else 0))"

definition classBonus :: "element \<Rightarrow> rat" where
  "classBonus el =
     (let cn = toLowerCase (className el)
      in if str_includes cn ''btn'' \<or> str_includes cn ''button'' \<or> str_includes cn ''link''
            \<or> str_includes cn ''control'' \<or> str_includes cn ''clickable''
            \<or> str_includes cn ''selectable'' \<or> str_includes cn ''interactive''
         then 2 else 0)"

text \<open>
  \<open>getElementPriority\<close>: the script adds the bonuses to \<open>score\<close> one statement after
  the other; here they are grouped by the comment blocks of the source.
\<close>

definition getElementPriority :: "dom_cache \<Rightarrow> element \<Rightarrow> rat" where
  "getElementPriority c el =
     baseScore el + attributeBonus el + contentBonus el
       + styleBonus (getCachedComputedStyle c el) + sizeBonus c el + classBonus el"

subsection \<open>Deduplication\<close>

text \<open>
  An entry of \<open>processedElementAreas\<close>. \<open>pa_priority\<close> and \<open>pa_area\<close> are
  \<open>undefined\<close> (\<open>None\<close>) unless the fast path stored them; \<open>pa_isScrollbar\<close> is set
  only by the scroll-region scan.
\<close>

record processed_area =
  pa_left :: rat
  pa_top :: rat
  pa_right :: rat
  pa_bottom :: rat
  pa_element :: element
  pa_priority :: "rat option"
  pa_area :: "rat option"
  pa_isScrollbar :: bool

definition overlapLength :: "rat \<Rightarrow> rat \<Rightarrow> rat \<Rightarrow> rat \<Rightarrow> rat" where
  "overlapLength lo1 hi1 lo2 hi2 = max 0 (min hi1 hi2 - max lo1 lo2)"

definition elementText :: "element \<Rightarrow> string" where
  "elementText el = trim (textContent (el_props el))"

text \<open>
  The walk over the ancestors of a candidate. \<open>True\<close>: the script returns \<open>true\<close>
  (duplicate of an interactive ancestor); \<open>False\<close>: the loop ends or breaks, and the
  comparison with the ledger follows. (\<open>foundSignificantParent\<close> is never set.)
\<close>

fun parentLoop :: "dom_cache \<Rightarrow> element \<Rightarrow> rect \<Rightarrow> rat \<Rightarrow> element list \<Rightarrow> bool" where
  "parentLoop c el rect elementPriority [] = False"
| "parentLoop c el rect elementPriority (parent # rest) =
     (if isInteractiveElement c parent then
        (case getCachedBoundingRect c parent of
           None \<Rightarrow> parentLoop c el rect elementPriority rest
         | Some parentRect \<Rightarrow>
             (let elementArea = rect_width rect * rect_height rect;
                  overlapX = overlapLength (rect_left rect) (rect_right rect)
                               (rect_left parentRect) (rect_right parentRect);
                  overlapY = overlapLength (rect_top rect) (rect_bottom rect)
                               (rect_top parentRect) (rect_bottom parentRect);
                  containmentRatio = overlapX * overlapY / elementArea
              in if containmentRatio > 85 / 100 then
                   (let priorityDiff = elementPriority - getElementPriority c parent;
                        elementTag = el_tag el;
                        parentTag = el_tag parent
                    in if (elementTag = ''a'' \<and> parentTag = ''li'')
                          \<or> (elementTag = ''li'' \<and> parentTag = ''a'') then False
                       else if elementTag = ''button'' \<and> parentTag = ''form'' then False
                       else if elementTag = ''input'' \<and> parentTag = ''label'' then False
                       else if (elementTag = ''i'' \<or> elementTag = ''span'')
                               \<and> (parentTag = ''button'' \<or> attrIs parent ''role'' ''button'')
                            then True
                       else if priorityDiff > 3 then False
                       else if priorityDiff < - 1 then True
                       else if elementArea / (rect_width parentRect * rect_height parentRect)
                                 < 2 / 10 then False
                       else if elementText el \<noteq> [] \<and> elementText el \<noteq> elementText parent
                               \<and> of_nat (length (elementText el))
                                   < (of_nat (length (elementText parent)) :: rat) * (7 / 10)
                            then False
                       else True)
                 else parentLoop c el rect elementPriority rest))
      else parentLoop c el rect elementPriority rest)"

definition existingPriorityOf :: "dom_cache \<Rightarrow> processed_area \<Rightarrow> rat" where
  "existingPriorityOf c pa =
     (case pa_priority pa of
        Some p \<Rightarrow> if p \<noteq> 0 then p else getElementPriority c (pa_element pa)
      | None \<Rightarrow> getElementPriority c (pa_element pa))"

text \<open>\<open>parseInt(getCachedComputedStyle(el)?.zIndex || '0')\<close>\<close>

definition zIndexOf :: "dom_cache \<Rightarrow> element \<Rightarrow> int option" where
  "zIndexOf c el =
     (let z = zIndex (getCachedComputedStyle c el) in parseInt (if z = [] then ''0'' else z))"

text \<open>\<open>a > b + 1\<close> on parsed z-indices; false as soon as one of them is \<open>NaN\<close>.\<close>

definition zAbove :: "int option \<Rightarrow> int option \<Rightarrow> bool" where
  "zAbove a b = (case (a, b) of (Some x, Some y) \<Rightarrow> x > y + 1 | _ \<Rightarrow> False)"

text \<open>\<open>tagPriority[s] > tagPriority[t] + 2\<close>; false when a tag is not in the table.\<close>

definition tagOutranks :: "string \<Rightarrow> string \<Rightarrow> bool" where
  "tagOutranks s t =
     (case (tagPriority s, tagPriority t) of (Some x, Some y) \<Rightarrow> x > y + 2 | _ \<Rightarrow> False)"

text \<open>What one iteration of the ledger loop decides about the entry it looks at.\<close>

datatype verdict = Keep | Splice | ReturnTrue

definition similarPriorityVerdict ::
  "element \<Rightarrow> rat \<Rightarrow> element \<Rightarrow> rat \<Rightarrow> verdict" where
  "similarPriorityVerdict el elementArea existingElement processedElementArea =
     (if (el_tag el = ''i'' \<or> el_tag el = ''span'') \<and> elementText el = []
         \<and> (el_tag existingElement = ''button'' \<or> attrIs existingElement ''role'' ''button'')
      then ReturnTrue
      else if elementText el \<noteq> [] \<and> elementText existingElement \<noteq> []
              \<and> of_nat (length (elementText existingElement))
                   > (of_nat (length (elementText el)) :: rat) * (3 / 2)
      then ReturnTrue
      else if elementText el \<noteq> [] \<and> elementText existingElement \<noteq> []
              \<and> of_nat (length (elementText el))
                   > (of_nat (length (elementText existingElement)) :: rat) * (3 / 2)
      then Splice
      else if tagOutranks (el_tag existingElement) (el_tag el) then ReturnTrue
      else if tagOutranks (el_tag el) (el_tag existingElement) then Splice
      else if processedElementArea > elementArea * 3 then ReturnTrue
      else if elementArea > processedElementArea * 3 then Splice
      else ReturnTrue)"

definition entryVerdict ::
  "dom_cache \<Rightarrow> element \<Rightarrow> rect \<Rightarrow> rat \<Rightarrow> processed_area \<Rightarrow> verdict" where
  "entryVerdict c el rect elementPriority processedArea =
     (let elementArea = rect_width rect * rect_height rect;
          overlapX = overlapLength (rect_left rect) (rect_right rect)
                       (pa_left processedArea) (pa_right processedArea);
          overlapY = overlapLength (rect_top rect) (rect_bottom rect)
                       (pa_top processedArea) (pa_bottom processedArea)
      in if overlapX \<le> 0 \<or> overlapY \<le> 0 then Keep
         else
           (let processedElementArea =
                  (pa_right processedArea - pa_left processedArea)
                    * (pa_bottom processedArea - pa_top processedArea);
                overlapRatio = overlapX * overlapY / min elementArea processedElementArea
            in if overlapRatio > 6 / 10 then
                 (let existingElement = pa_element processedArea;
                      priorityDiff = elementPriority - existingPriorityOf c processedArea;
                      sameBox =
                        (\<bar>rect_left rect - pa_left processedArea\<bar> < 3
                         \<and> \<bar>rect_top rect - pa_top processedArea\<bar> < 3
                         \<and> \<bar>rect_width rect - (pa_right processedArea - pa_left processedArea)\<bar> < 3
                         \<and> \<bar>rect_height rect - (pa_bottom processedArea - pa_top processedArea)\<bar> < 3)
                  in if sameBox \<and> zAbove (zIndexOf c el) (zIndexOf c existingElement) then Splice
                     else if sameBox \<and> zAbove (zIndexOf c existingElement) (zIndexOf c el)
                          then ReturnTrue
                     else if priorityDiff > 2 then Splice
                     else if priorityDiff < - (1 / 2) then ReturnTrue
                     else similarPriorityVerdict el elementArea existingElement
                            processedElementArea)
               else Keep))"

text \<open>
  The loop over \<open>processedElementAreas\<close>: \<open>kept\<close> are the entries before index
  \<open>i\<close> (after the splices made so far), the list argument the entries from \<open>i\<close> on.
  The result is whether the script returned \<open>true\<close>, and the ledger as the loop left it.
\<close>

fun ledgerLoop ::
  "dom_cache \<Rightarrow> element \<Rightarrow> rect \<Rightarrow> rat \<Rightarrow> processed_area list \<Rightarrow> processed_area list
     \<Rightarrow> bool \<times> processed_area list" where
  "ledgerLoop c el rect elementPriority kept [] = (False, kept)"
| "ledgerLoop c el rect elementPriority kept (processedArea # rest) =
     (case entryVerdict c el rect elementPriority processedArea of
        Keep \<Rightarrow> ledgerLoop c el rect elementPriority (kept @ [processedArea]) rest
      | Splice \<Rightarrow> ledgerLoop c el rect elementPriority kept rest
      | ReturnTrue \<Rightarrow> (True, kept @ processedArea # rest))"

definition isHighPriorityElement :: "element \<Rightarrow> rect \<Rightarrow> rat \<Rightarrow> bool" where
  "isHighPriorityElement el rect elementPriority =
     (elementPriority \<ge> 12
      \<or> (attrIs el ''contenteditable'' ''true'' \<and> rect_width rect \<ge> 15 \<and> rect_height rect \<ge> 15)
      \<or> (el_tag el = ''input'' \<and> rect_width rect \<ge> 15 \<and> rect_height rect \<ge> 15)
      \<or> (el_tag el = ''textarea'' \<and> rect_width rect \<ge> 15 \<and> rect_height rect \<ge> 15)
      \<or> (el_tag el = ''select'' \<and> rect_width rect \<ge> 15 \<and> rect_height rect \<ge> 15))"

text \<open>
  \<open>isDuplicateInteractiveElement(element, rect)\<close> on the ledger
  \<open>processedElementAreas\<close>: the returned flag and the ledger after the call.
\<close>

definition isDuplicateInteractiveElement ::
  "dom_cache \<Rightarrow> processed_area list \<Rightarrow> element \<Rightarrow> rect \<Rightarrow> bool \<times> processed_area list" where
  "isDuplicateInteractiveElement c processedElementAreas el rect =
     (if rect_width rect < 5 \<or> rect_height rect < 5 then (True, processedElementAreas)
      else
        (let elementPriority = getElementPriority c el;
             elementArea = rect_width rect * rect_height rect
         in if isHighPriorityElement el rect elementPriority then
              (False, processedElementAreas @
                 [\<lparr>pa_left = rect_left rect, pa_top = rect_top rect,
                   pa_right = rect_right rect, pa_bottom = rect_bottom rect,
                   pa_element = el, pa_priority = Some elementPriority,
                   pa_area = Some elementArea, pa_isScrollbar = False\<rparr>])
            else if parentLoop c el rect elementPriority (ancestors el)
              then (True, processedElementAreas)
            else
              (case ledgerLoop c el rect elementPriority [] processedElementAreas of
                 (True, ledger) \<Rightarrow> (True, ledger)
               | (False, ledger) \<Rightarrow>
                   (False, ledger @
                      [\<lparr>pa_left = rect_left rect, pa_top = rect_top rect,
                        pa_right = rect_right rect, pa_bottom = rect_bottom rect,
                        pa_element = el, pa_priority = None,
                        pa_area = None, pa_isScrollbar = False\<rparr>]))))"

subsection \<open>Descriptors and the state of a pass\<close>

text \<open>
  The output record of one element. Of the fields the script fills, the model keeps the
  ones that identify and classify a descriptor: \<open>d_node\<close> is the identity of the element
  the descriptor was built from (what \<open>jsPath\<close> addresses), \<open>d_inIframe\<close> and
  \<open>d_inShadowDOM\<close> the identity of the enclosing iframe and shadow host. Captured
  attributes, text, label and landmark context, the suggested interaction and the thumb
  geometry of scrollbars are left out.
\<close>

record bounding_rect =
  br_top :: int
  br_left :: int
  br_width :: int
  br_height :: int

record scroll_data =
  hasVerticalScrollbar :: bool
  hasHorizontalScrollbar :: bool
  scrollbarWidth :: int
  scrollbarHeight :: int
  contentHeight :: int
  contentWidth :: int
  visibleHeight :: int
  visibleWidth :: int
  maxScrollTop :: int
  maxScrollLeft :: int

record descriptor =
  d_tagName :: string
  d_node :: nat
  d_highlightIndex :: nat
  d_boundingRect :: bounding_rect
  d_isIframe :: bool
  d_crossDomain :: bool
  d_inIframe :: "nat option"
  d_inShadowDOM :: "nat option"
  d_isHiddenFileInput :: bool
  d_visibleParentTag :: "string option"
  d_scrollData :: "scroll_data option"
  d_isMainScrollbar :: bool

record pass_state =
  processedElementAreas :: "processed_area list"
  highlightIndex :: nat
  result :: "descriptor list"

definition mathRound :: "rat \<Rightarrow> int" where
  "mathRound x = \<lfloor>x + 1 / 2\<rfloor>"

definition roundRect :: "rect \<Rightarrow> bounding_rect" where
  "roundRect r =
     \<lparr>br_top = mathRound (rect_top r), br_left = mathRound (rect_left r),
      br_width = mathRound (rect_width r), br_height = mathRound (rect_height r)\<rparr>"

definition createElementData :: "element \<Rightarrow> nat \<Rightarrow> descriptor" where
  "createElementData el index =
     \<lparr>d_tagName = el_tag el, d_node = el_id el, d_highlightIndex = index,
      d_boundingRect = roundRect (boundingClientRect (el_props el)),
      d_isIframe = False, d_crossDomain = False, d_inIframe = None, d_inShadowDOM = None,
      d_isHiddenFileInput = False, d_visibleParentTag = None, d_scrollData = None,
      d_isMainScrollbar = False\<rparr>"

text \<open>
  \<open>result.push(elementData); ...; highlightIndex++\<close>. The highlight calls between the
  two statements draw overlays only and catch their own exceptions.
\<close>

definition pushResult :: "descriptor \<Rightarrow> pass_state \<Rightarrow> pass_state" where
  "pushResult elementData st =
     st\<lparr>result := result st @ [elementData], highlightIndex := highlightIndex st + 1\<rparr>"

subsection \<open>Traversal of a document\<close>

definition querySelectorAll :: "element list \<Rightarrow> (element \<Rightarrow> bool) \<Rightarrow> element list" where
  "querySelectorAll els sel = filter sel els"

text \<open>The selector of \<open>processElementsInDocument\<close> and \<open>processShadowDOMElements\<close>.\<close>

definition candidateSelector :: "element \<Rightarrow> bool" where
  "candidateSelector el =
     (el_tag el \<in> set [''a'', ''button'', ''input'', ''select'', ''textarea'', ''canvas'',
                        ''summary'', ''details'', ''label'', ''menu'', ''menuitem'', ''option'']
      \<or> hasAttribute el ''role'' \<or> hasAttribute el ''tabindex'' \<or> hasAttribute el ''onclick''
      \<or> attrIs el ''contenteditable'' ''true''
      \<or> classListContains el ''button'' \<or> classListContains el ''dropdown-toggle''
      \<or> classListContains el ''nav-btn''
      \<or> attrIncludes el ''class'' ''btn''
      \<or> attrIs el ''role'' ''button''
      \<or> hasAttribute el ''aria-haspopup'' \<or> hasAttribute el ''data-toggle''
      \<or> hasAttribute el ''aria-expanded'' \<or> hasAttribute el ''aria-pressed''
      \<or> attrIs el ''draggable'' ''true''
      \<or> attrIncludes el ''class'' ''draggable'' \<or> attrIncludes el ''class'' ''control''
      \<or> attrIncludes el ''class'' ''interactive'' \<or> attrIncludes el ''class'' ''clickable''
      \<or> hasAttribute el ''data-action'')"

definition isElementInIframeViewport :: "args \<Rightarrow> window \<Rightarrow> element \<Rightarrow> element \<Rightarrow> bool" where
  "isElementInIframeViewport a w el iframe =
     (if viewportExpansion a = - 1 then True
      else
        (let iframeRect = boundingClientRect (el_props iframe);
             elementRect = boundingClientRect (el_props el);
             absoluteTop = rect_top iframeRect + rect_top elementRect;
             absoluteLeft = rect_left iframeRect + rect_left elementRect;
             absoluteBottom = absoluteTop + rect_height elementRect;
             absoluteRight = absoluteLeft + rect_width elementRect
         in \<not> (absoluteBottom < - viewportExpansion a
               \<or> absoluteTop > of_int (viewportHeight w) + viewportExpansion a
               \<or> absoluteRight < - viewportExpansion a
               \<or> absoluteLeft > of_int (viewportWidth w) + viewportExpansion a)))"

text \<open>
  \<open>isTopElementWithIframeSupport(element, iframe)\<close>; \<open>ownerDoc\<close> is
  \<open>element.ownerDocument\<close>, the document being processed.
\<close>

definition isTopElementWithIframeSupport ::
  "page \<Rightarrow> dom_cache \<Rightarrow> document \<Rightarrow> element \<Rightarrow> element option \<Rightarrow> bool" where
  "isTopElementWithIframeSupport pg c ownerDoc el iframeElement =
     (case iframeElement of
        None \<Rightarrow> isTopElement (win pg) (mainDocument pg) c el
      | Some iframe \<Rightarrow>
          (let iframeRect = boundingClientRect (el_props iframe);
               elementRect = boundingClientRect (el_props el);
               absoluteTop = rect_top iframeRect + rect_top elementRect;
               absoluteLeft = rect_left iframeRect + rect_left elementRect;
               absoluteCenterX = absoluteLeft + rect_width elementRect / 2;
               absoluteCenterY = absoluteTop + rect_height elementRect / 2
           in case elementFromPoint (mainDocument pg) absoluteCenterX absoluteCenterY of
                None \<Rightarrow> False
              | Some iframeElementAtPoint \<Rightarrow>
                  if chainContains (documentElementId (mainDocument pg)) (el_id iframe)
                       iframeElementAtPoint
                  then (case elementFromPoint ownerDoc
                               (rect_left elementRect + rect_width elementRect / 2)
                               (rect_top elementRect + rect_height elementRect / 2) of
                          None \<Rightarrow> False
                        | Some elementAtPoint \<Rightarrow>
                            chainContains (documentElementId ownerDoc) (el_id el) elementAtPoint)
                  else False))"

text \<open>The first pass of a document: the filters every potential element goes through.\<close>

definition candidateOf ::
  "args \<Rightarrow> page \<Rightarrow> dom_cache \<Rightarrow> document \<Rightarrow> element option \<Rightarrow> element
     \<Rightarrow> (element \<times> rect) option" where
  "candidateOf a pg c doc iframeElement el =
     (if \<not> (case iframeElement of
               Some iframe \<Rightarrow> isElementInIframeViewport a (win pg) el iframe
             | None \<Rightarrow> isInViewport a (win pg) c el) then None
      else if \<not> isElementVisible c el then None
      else if \<not> isTopElementWithIframeSupport pg c doc el iframeElement then None
      else if \<not> isInteractiveElement c el then None
      else (case getCachedBoundingRect c el of None \<Rightarrow> None | Some rect \<Rightarrow> Some (el, rect)))"

definition candidateArea :: "element \<times> rect \<Rightarrow> rat" where
  "candidateArea cand = rect_width (snd cand) * rect_height (snd cand)"

text \<open>
  \<open>candidateElements\<close> after the sort by area; \<open>Array.prototype.sort\<close> is stable, as
  \<open>sort_key\<close> is.
\<close>

definition candidateElements ::
  "args \<Rightarrow> page \<Rightarrow> dom_cache \<Rightarrow> document \<Rightarrow> element option \<Rightarrow> element list
     \<Rightarrow> (element \<times> rect) list" where
  "candidateElements a pg c doc iframeElement potentialElements =
     sort_key candidateArea
       (List.map_filter (candidateOf a pg c doc iframeElement) potentialElements)"

definition withIframeInfo :: "element option \<Rightarrow> descriptor \<Rightarrow> descriptor" where
  "withIframeInfo iframeElement elementData =
     (case iframeElement of
        None \<Rightarrow> elementData
      | Some iframe \<Rightarrow> elementData\<lparr>d_inIframe := Some (el_id iframe)\<rparr>)"

definition withShadowInfo :: "element option \<Rightarrow> descriptor \<Rightarrow> descriptor" where
  "withShadowInfo shadowHost elementData =
     (case shadowHost of
        None \<Rightarrow> elementData
      | Some host \<Rightarrow> elementData\<lparr>d_inShadowDOM := Some (el_id host)\<rparr>)"

text \<open>The body of the second pass, for one candidate.\<close>

definition processCandidate ::
  "dom_cache \<Rightarrow> element option \<Rightarrow> element option \<Rightarrow> pass_state \<Rightarrow> element \<times> rect
     \<Rightarrow> pass_state" where
  "processCandidate c iframeElement shadowHost st cand =
     (case isDuplicateInteractiveElement c (processedElementAreas st) (fst cand) (snd cand) of
        (True, ledger) \<Rightarrow> st\<lparr>processedElementAreas := ledger\<rparr>
      | (False, ledger) \<Rightarrow>
          pushResult
            (withIframeInfo iframeElement
               (withShadowInfo shadowHost (createElementData (fst cand) (highlightIndex st))))
            (st\<lparr>processedElementAreas := ledger\<rparr>))"

text \<open>
  The selector \<open>input[type="file"].hidden, input[type="file"][style*="display: none"]\<close>;
  in an HTML document the value of \<open>type\<close> is matched without regard to case.
\<close>

definition hiddenFileInputSelector :: "element \<Rightarrow> bool" where
  "hiddenFileInputSelector el =
     (el_tag el = ''input''
      \<and> (case getAttribute el ''type'' of None \<Rightarrow> False
          | Some v \<Rightarrow> toLowerCase v = ''file'')
      \<and> (classListContains el ''hidden'' \<or> attrIncludes el ''style'' ''display: none''))"

definition processHiddenFileInput ::
  "page \<Rightarrow> dom_cache \<Rightarrow> document \<Rightarrow> element option \<Rightarrow> pass_state \<Rightarrow> element \<Rightarrow> pass_state" where
  "processHiddenFileInput pg c doc iframeElement st fileInput =
     (case find (\<lambda>parentElement. isTopElementWithIframeSupport pg c doc parentElement iframeElement
                                  \<and> isElementVisible c parentElement)
                (takeWhile (\<lambda>parentElement. el_id parentElement \<noteq> bodyId doc)
                   (ancestors fileInput)) of
        None \<Rightarrow> st
      | Some visibleParent \<Rightarrow>
          (let elementData = createElementData fileInput (highlightIndex st);
               elementData = (case getCachedBoundingRect c visibleParent of
                                None \<Rightarrow> elementData
                              | Some parentRect \<Rightarrow>
                                  elementData\<lparr>d_boundingRect := roundRect parentRect\<rparr>);
               elementData = elementData\<lparr>d_isHiddenFileInput := True,
                                d_visibleParentTag := Some (el_tag visibleParent)\<rparr>
           in pushResult (withIframeInfo iframeElement elementData) st))"

definition processHiddenFileInputs ::
  "page \<Rightarrow> dom_cache \<Rightarrow> document \<Rightarrow> element option \<Rightarrow> pass_state \<Rightarrow> pass_state" where
  "processHiddenFileInputs pg c doc iframeElement st =
     foldl (processHiddenFileInput pg c doc iframeElement) st
       (querySelectorAll (allElements doc) hiddenFileInputSelector)"

definition processShadowHost ::
  "args \<Rightarrow> page \<Rightarrow> dom_cache \<Rightarrow> document \<Rightarrow> element option \<Rightarrow> pass_state \<Rightarrow> element
     \<Rightarrow> pass_state" where
  "processShadowHost a pg c doc iframeElement st host =
     (case shadowRoot doc host of
        None \<Rightarrow> st
      | Some shadowTree \<Rightarrow>
          foldl (processCandidate c iframeElement (Some host)) st
            (candidateElements a pg c doc iframeElement
               (querySelectorAll shadowTree candidateSelector)))"

definition processShadowDOMElements ::
  "args \<Rightarrow> page \<Rightarrow> dom_cache \<Rightarrow> document \<Rightarrow> element option \<Rightarrow> pass_state \<Rightarrow> pass_state" where
  "processShadowDOMElements a pg c doc iframeElement st =
     foldl (processShadowHost a pg c doc iframeElement) st (allElements doc)"

definition processElementsInDocument ::
  "args \<Rightarrow> page \<Rightarrow> dom_cache \<Rightarrow> document \<Rightarrow> element option \<Rightarrow> pass_state \<Rightarrow> pass_state" where
  "processElementsInDocument a pg c doc iframeElement st =
     processShadowDOMElements a pg c doc iframeElement
       (processHiddenFileInputs pg c doc iframeElement
          (foldl (processCandidate c iframeElement None) st
             (candidateElements a pg c doc iframeElement
                (querySelectorAll (allElements doc) candidateSelector))))"

subsection \<open>Scroll regions and viewport scrollbars\<close>

definition permitsScrolling :: "string \<Rightarrow> bool" where
  "permitsScrolling v = (v = ''scroll'' \<or> v = ''auto'')"

definition hasVerticalScroll :: "dom_cache \<Rightarrow> element \<Rightarrow> bool" where
  "hasVerticalScroll c el =
     (let style = getCachedComputedStyle c el
      in scrollHeight (el_props el) > clientHeight (el_props el)
         \<and> (permitsScrolling (overflow style) \<or> permitsScrolling (overflowY style)))"

definition hasHorizontalScroll :: "dom_cache \<Rightarrow> element \<Rightarrow> bool" where
  "hasHorizontalScroll c el =
     (let style = getCachedComputedStyle c el
      in scrollWidth (el_props el) > clientWidth (el_props el)
         \<and> (permitsScrolling (overflow style) \<or> permitsScrolling (overflowX style)))"

text \<open>
  One iteration of the duplicate check of the scroll-region scan: an entry counts only
  when it is flagged \<open>isScrollbar\<close> and overlaps the rectangle by more than 80% of the
  smaller area.
\<close>

definition overlapsScrollbarEntry :: "rect \<Rightarrow> processed_area \<Rightarrow> bool" where
  "overlapsScrollbarEntry rect processedArea =
     (if \<not> pa_isScrollbar processedArea then False
      else
        (let overlapX = overlapLength (rect_left rect) (rect_right rect)
                          (pa_left processedArea) (pa_right processedArea);
             overlapY = overlapLength (rect_top rect) (rect_bottom rect)
                          (pa_top processedArea) (pa_bottom processedArea)
         in if overlapX \<le> 0 \<or> overlapY \<le> 0 then False
            else
              (let elementArea = (rect_right rect - rect_left rect)
                                   * (rect_bottom rect - rect_top rect);
                   processedElementArea =
                     (pa_right processedArea - pa_left processedArea)
                       * (pa_bottom processedArea - pa_top processedArea)
               in overlapX * overlapY / min elementArea processedElementArea > 8 / 10)))"

definition scrollbarType :: "bool \<Rightarrow> bool \<Rightarrow> string" where
  "scrollbarType v h =
     (if v \<and> h then ''both'' else if v then ''vertical'' else if h then ''horizontal'' else [])"

definition scrollbarData :: "dom_cache \<Rightarrow> element \<Rightarrow> rect \<Rightarrow> nat \<Rightarrow> descriptor" where
  "scrollbarData c el rect index =
     \<lparr>d_tagName = ''scrollbar:'' @ el_tag el @ ''-''
                     @ scrollbarType (hasVerticalScroll c el) (hasHorizontalScroll c el),
      d_node = el_id el, d_highlightIndex = index,
      d_boundingRect = roundRect rect,
      d_isIframe = False, d_crossDomain = False, d_inIframe = None, d_inShadowDOM = None,
      d_isHiddenFileInput = False, d_visibleParentTag = None,
      d_scrollData = Some
        \<lparr>hasVerticalScrollbar = hasVerticalScroll c el,
         hasHorizontalScrollbar = hasHorizontalScroll c el,
         scrollbarWidth = offsetWidth (el_props el) - clientWidth (el_props el),
         scrollbarHeight = offsetHeight (el_props el) - clientHeight (el_props el),
         contentHeight = scrollHeight (el_props el),
         contentWidth = scrollWidth (el_props el),
         visibleHeight = clientHeight (el_props el),
         visibleWidth = clientWidth (el_props el),
         maxScrollTop = scrollHeight (el_props el) - clientHeight (el_props el),
         maxScrollLeft = scrollWidth (el_props el) - clientWidth (el_props el)\<rparr>,
      d_isMainScrollbar = False\<rparr>"

text \<open>The body of the loop of \<open>findScrollableElements\<close>, for one element.\<close>

definition scanScrollable ::
  "args \<Rightarrow> page \<Rightarrow> dom_cache \<Rightarrow> pass_state \<Rightarrow> element \<Rightarrow> pass_state" where
  "scanScrollable a pg c st el =
     (if \<not> isInViewport a (win pg) c el \<or> \<not> isElementVisible c el then st
      else if clientWidth (el_props el) < 10 \<or> clientHeight (el_props el) < 10 then st
      else if hasVerticalScroll c el \<or> hasHorizontalScroll c el then
        (if \<not> isTopElement (win pg) (mainDocument pg) c el then st
         else if (hasVerticalScroll c el
                    \<and> offsetWidth (el_props el) - clientWidth (el_props el) < 1)
                 \<or> (hasHorizontalScroll c el
                    \<and> offsetHeight (el_props el) - clientHeight (el_props el) < 1) then st
         else (case getCachedBoundingRect c el of
                 None \<Rightarrow> st
               | Some rect \<Rightarrow>
                   if list_ex (overlapsScrollbarEntry rect) (processedElementAreas st) then st
                   else pushResult (scrollbarData c el rect (highlightIndex st))
                          (st\<lparr>processedElementAreas := processedElementAreas st @
                                [\<lparr>pa_left = rect_left rect, pa_top = rect_top rect,
                                  pa_right = rect_right rect, pa_bottom = rect_bottom rect,
                                  pa_element = el, pa_priority = None, pa_area = None,
                                  pa_isScrollbar = True\<rparr>]\<rparr>)))
      else st)"

definition findScrollableElements ::
  "args \<Rightarrow> page \<Rightarrow> dom_cache \<Rightarrow> pass_state \<Rightarrow> pass_state" where
  "findScrollableElements a pg c st =
     foldl (scanScrollable a pg c) st (allElements (mainDocument pg))"

definition mainScrollbarData :: "page \<Rightarrow> bool \<Rightarrow> nat \<Rightarrow> descriptor" where
  "mainScrollbarData pg vertical index =
     (let w = win pg;
          verticalScrollbarWidth = innerWidth w - docClientWidth w;
          horizontalScrollbarHeight = innerHeight w - docClientHeight w;
          displayWidth = max verticalScrollbarWidth 8;
          displayHeight = max horizontalScrollbarHeight 8
      in \<lparr>d_tagName = (if vertical then ''scrollbar:main-vertical''
                        else ''scrollbar:main-horizontal''),
          d_node = documentElementId (mainDocument pg), d_highlightIndex = index,
          d_boundingRect =
            (if vertical
             then \<lparr>br_top = 0, br_left = innerWidth w - displayWidth,
                   br_width = displayWidth, br_height = innerHeight w\<rparr>
             else \<lparr>br_top = innerHeight w - displayHeight, br_left = 0,
                   br_width = innerWidth w, br_height = displayHeight\<rparr>),
          d_isIframe = False, d_crossDomain = False, d_inIframe = None,
          d_inShadowDOM = None, d_isHiddenFileInput = False, d_visibleParentTag = None,
          d_scrollData = Some
            \<lparr>hasVerticalScrollbar = vertical, hasHorizontalScrollbar = \<not> vertical,
             scrollbarWidth = (if vertical then verticalScrollbarWidth else 0),
             scrollbarHeight = (if vertical then 0 else horizontalScrollbarHeight),
             contentHeight = docScrollHeight w, contentWidth = docScrollWidth w,
             visibleHeight = innerHeight w, visibleWidth = innerWidth w,
             maxScrollTop = docScrollHeight w - innerHeight w,
             maxScrollLeft = docScrollWidth w - innerWidth w\<rparr>,
          d_isMainScrollbar = True\<rparr>)"

definition findMainBrowserScrollbars :: "page \<Rightarrow> pass_state \<Rightarrow> pass_state" where
  "findMainBrowserScrollbars pg st =
     (let w = win pg;
          st1 = (if docScrollHeight w > innerHeight w \<and> innerWidth w - docClientWidth w \<ge> 0
                 then pushResult (mainScrollbarData pg True (highlightIndex st)) st else st)
      in if docScrollWidth w > innerWidth w \<and> innerHeight w - docClientHeight w \<ge> 0
         then pushResult (mainScrollbarData pg False (highlightIndex st1)) st1 else st1)"

subsection \<open>The pass\<close>

definition iframeSelector :: "element \<Rightarrow> bool" where
  "iframeSelector el = (el_tag el = ''iframe'')"

text \<open>The body of the loop over the iframes of the top-level document.\<close>

definition processIframe ::
  "args \<Rightarrow> page \<Rightarrow> dom_cache \<Rightarrow> pass_state \<Rightarrow> element \<Rightarrow> pass_state" where
  "processIframe a pg c st iframe =
     (if \<not> isInViewport a (win pg) c iframe then st
      else if \<not> isElementVisible c iframe then st
      else (case frameAccess pg iframe of
              SameOrigin iframeDoc \<Rightarrow> processElementsInDocument a pg c iframeDoc (Some iframe) st
            | NoDocument \<Rightarrow> st
            | SecurityError \<Rightarrow>
                if isInteractiveElement c iframe
                then pushResult
                       ((createElementData iframe (highlightIndex st))
                          \<lparr>d_isIframe := True, d_crossDomain := True\<rparr>) st
                else st))"

definition initialState :: pass_state where
  "initialState = \<lparr>processedElementAreas = [], highlightIndex = 0, result = []\<rparr>"

definition findViewportInteractiveElements ::
  "args \<Rightarrow> page \<Rightarrow> dom_cache \<Rightarrow> descriptor list" where
  "findViewportInteractiveElements a pg c =
     result
       (findMainBrowserScrollbars pg
          (findScrollableElements a pg c
             (foldl (processIframe a pg c)
                (processElementsInDocument a pg c (mainDocument pg) None initialState)
                (querySelectorAll (allElements (mainDocument pg)) iframeSelector))))"

text \<open>
  \<open>window.domTreeResult(args)\<close>. \<open>clock\<close> holds the three readings of the clock the
  invocation makes: when the \<open>DOM_CACHE\<close> literal is built, inside \<open>clearCache\<close>, and
  for the timestamp of the result. Cache, ledger, counter and result list are created
  by the invocation itself. The fields \<open>url\<close>, \<open>websiteInfo\<close> and
  \<open>scrollPosition\<close> of the returned record are left out.
\<close>

record clock =
  atCacheCreation :: int
  atClearCache :: int
  atReturn :: int

record dom_tree_result =
  res_timestamp :: int
  res_viewportSize :: window_size
  res_interactiveElements :: "descriptor list"

definition currentWindowSize :: "page \<Rightarrow> window_size" where
  "currentWindowSize pg = \<lparr>ws_width = innerWidth (win pg), ws_height = innerHeight (win pg)\<rparr>"

definition domTreeResult :: "args \<Rightarrow> page \<Rightarrow> clock \<Rightarrow> dom_tree_result" where
  "domTreeResult a pg clk =
     (let cache0 = DOM_CACHE_new (currentWindowSize pg) (atCacheCreation clk);
          cache1 = snd (clearCache False (currentWindowSize pg) (atClearCache clk) cache0)
      in \<lparr>res_timestamp = atReturn clk,
          res_viewportSize = currentWindowSize pg,
          res_interactiveElements = findViewportInteractiveElements a pg cache1\<rparr>)"

subsection \<open>Example nodes and pages\<close>

text \<open>Concrete node views on which the properties below are exercised.\<close>

definition plainStyle :: style where
  "plainStyle =
     \<lparr>cursor = ''auto'', visibility = ''visible'', display = ''block'', opacity = ''1'',
      border = ''0px none rgb(0, 0, 0)'', backgroundColor = ''rgba(0, 0, 0, 0)'',
      zIndex = ''auto'', position = ''static'', overflow = ''visible'',
      overflowX = ''visible'', overflowY = ''visible''\<rparr>"

definition box :: "rat \<Rightarrow> rat \<Rightarrow> rat \<Rightarrow> rat \<Rightarrow> rect" where
  "box l t w h = \<lparr>rect_left = l, rect_top = t, rect_width = w, rect_height = h\<rparr>"

text \<open>A node without text, children, handlers or overflow, whose layout box is its rectangle.\<close>

definition node :: "nat \<Rightarrow> string \<Rightarrow> (string \<times> string) list \<Rightarrow> rect \<Rightarrow> props" where
  "node i tg attrs r =
     \<lparr>nodeId = i, tagName = tg, attributes = attrs, textContent = [],
      childCount = 0, onHandlers = [], listenerRegistry = Unavailable,
      isContentEditable = False, draggable = False, inlineDisplay = [],
      computedStyle = plainStyle, boundingClientRect = r,
      offsetWidth = \<lfloor>rect_width r\<rfloor>, offsetHeight = \<lfloor>rect_height r\<rfloor>,
      clientWidth = \<lfloor>rect_width r\<rfloor>, clientHeight = \<lfloor>rect_height r\<rfloor>,
      scrollWidth = \<lfloor>rect_width r\<rfloor>, scrollHeight = \<lfloor>rect_height r\<rfloor>\<rparr>"

definition htmlEl :: element where
  "htmlEl = Element (node 0 ''html'' [] (box 0 0 1024 768)) None"

definition bodyEl :: element where
  "bodyEl = Element (node 1 ''body'' [] (box 0 0 1024 768)) (Some htmlEl)"

definition win0 :: window where
  "win0 = \<lparr>innerWidth = 1024, innerHeight = 768, docClientWidth = 1024,
            docClientHeight = 768, docScrollWidth = 1024, docScrollHeight = 768\<rparr>"

definition args0 :: args where
  "args0 = \<lparr>doHighlightElements = False, focusHighlightIndex = - 1,
             viewportExpansion = 0, debugMode = False\<rparr>"

definition freshCache :: dom_cache where
  "freshCache = DOM_CACHE_new \<lparr>ws_width = 1024, ws_height = 768\<rparr> 0"

text \<open>A cache that holds entries for node 7 and was last touched at time 0.\<close>

definition staleCache :: dom_cache where
  "staleCache =
     \<lparr>boundingRects = [7 \<mapsto> box 0 0 10 10], computedStyles = [7 \<mapsto> plainStyle],
      previousWindowSize = \<lparr>ws_width = 1024, ws_height = 768\<rparr>, lastRunTimestamp = 0\<rparr>"

text \<open>
  \<open><button role="presentation" onclick="go()" draggable="true" style="cursor: pointer">\<close>
\<close>

definition presentationButton :: element where
  "presentationButton =
     Element
       ((node 2 ''button''
           [(''role'', ''presentation''), (''onclick'', ''go()''), (''draggable'', ''true'')]
           (box 0 0 80 30))
          \<lparr>onHandlers := [''click''], draggable := True,
           computedStyle := plainStyle\<lparr>cursor := ''pointer''\<rparr>\<rparr>)
       (Some bodyEl)"

subsection \<open>Notions used in the proofs\<close>

text \<open>
  \<open>appended P st st'\<close>: from \<open>st\<close> to \<open>st'\<close> the result list only grew at its end,
  every new descriptor satisfies \<open>P\<close>, and the new descriptors carry the consecutive
  indices from the counter of \<open>st\<close> up to the counter of \<open>st'\<close>.
\<close>

definition appended :: "(descriptor \<Rightarrow> bool) \<Rightarrow> pass_state \<Rightarrow> pass_state \<Rightarrow> bool" where
  "appended P st st' =
     (\<exists>new. result st' = result st @ new \<and> list_all P new
            \<and> highlightIndex st' = highlightIndex st + length new
            \<and> map d_highlightIndex new = [highlightIndex st ..< highlightIndex st + length new])"

text \<open>The kinds of descriptor each phase of the pass produces.\<close>

definition docDescriptor :: "element option \<Rightarrow> descriptor \<Rightarrow> bool" where
  "docDescriptor iframeElement d =
     (\<not> d_crossDomain d \<and> \<not> d_isIframe d \<and> d_scrollData d = None \<and> \<not> d_isMainScrollbar d
      \<and> d_inIframe d = map_option el_id iframeElement)"

definition iframeDescriptor :: "element \<Rightarrow> descriptor \<Rightarrow> bool" where
  "iframeDescriptor iframe d =
     (if d_crossDomain d
      then d_isIframe d \<and> d_node d = el_id iframe \<and> d_inIframe d = None
           \<and> d_scrollData d = None \<and> \<not> d_isMainScrollbar d
      else docDescriptor (Some iframe) d)"

definition scrollDescriptor :: "descriptor \<Rightarrow> bool" where
  "scrollDescriptor d =
     (\<not> d_crossDomain d \<and> \<not> d_isIframe d \<and> d_scrollData d \<noteq> None
      \<and> \<not> d_isMainScrollbar d \<and> d_inIframe d = None)"

definition mainScrollbarDescriptor :: "descriptor \<Rightarrow> bool" where
  "mainScrollbarDescriptor d =
     (\<not> d_crossDomain d \<and> \<not> d_isIframe d \<and> d_isMainScrollbar d \<and> d_inIframe d = None)"

subsection \<open>Further example pages\<close>

text \<open>A 4 by 4 pixel link \<open><a href="/next">\<close>, alone on its page.\<close>

definition tinyLink :: element where
  "tinyLink = Element (node 2 ''a'' [(''href'', ''/next'')] (box 10 10 4 4)) (Some bodyEl)"

definition pageTiny :: page where
  "pageTiny =
     \<lparr>win = win0,
      mainDocument =
        \<lparr>allElements = [htmlEl, bodyEl, tinyLink], documentElementId = 0, bodyId = 1,
         elementFromPoint =
           (\<lambda>x y. if 10 \<le> x \<and> x < 14 \<and> 10 \<le> y \<and> y < 14 then Some tinyLink
                  else if 0 \<le> x \<and> x < 1024 \<and> 0 \<le> y \<and> y < 768 then Some bodyEl
                  else None),
         shadowRoots = []\<rparr>,
      frames = []\<rparr>"




text \<open>
  A page that holds one element of each kind a pass reports: a button, a cross-origin
  iframe (interactive by its id, which names a consent banner), a hidden file input
  inside a visible box, a scrollable pane with a 15 pixel scrollbar gutter, and a
  document taller than the window.
\<close>

definition winScroll :: window where
  "winScroll = \<lparr>innerWidth = 1024, innerHeight = 768, docClientWidth = 1009,
                 docClientHeight = 768, docScrollWidth = 1009, docScrollHeight = 3000\<rparr>"

definition okButton :: element where
  "okButton = Element (node 2 ''button'' [] (box 0 0 100 40)) (Some bodyEl)"

definition consentFrame :: element where
  "consentFrame =
     Element (node 3 ''iframe'' [(''id'', ''consent-frame'')] (box 0 100 300 150)) (Some bodyEl)"

definition uploadBox :: element where
  "uploadBox =
     Element ((node 4 ''div'' [(''class'', ''upload'')] (box 0 300 200 50))\<lparr>childCount := 1\<rparr>)
       (Some bodyEl)"

definition uploadInput :: element where
  "uploadInput =
     Element (node 5 ''input'' [(''type'', ''file''), (''class'', ''hidden'')] (box 0 300 0 0))
       (Some uploadBox)"

definition scrollPane :: element where
  "scrollPane =
     Element
       ((node 6 ''div'' [] (box 400 0 300 400))
          \<lparr>clientWidth := 285, scrollWidth := 285, scrollHeight := 2000,
           computedStyle := plainStyle\<lparr>overflowY := ''auto''\<rparr>\<rparr>)
       (Some bodyEl)"

definition pageAll :: page where
  "pageAll =
     \<lparr>win = winScroll,
      mainDocument =
        \<lparr>allElements = [htmlEl, bodyEl, okButton, consentFrame, uploadBox, uploadInput, scrollPane],
         documentElementId = 0, bodyId = 1,
         elementFromPoint =
           (\<lambda>x y. if 0 \<le> x \<and> x < 100 \<and> 0 \<le> y \<and> y < 40 then Some okButton
                  else if 0 \<le> x \<and> x < 300 \<and> 100 \<le> y \<and> y < 250 then Some consentFrame
                  else if 0 \<le> x \<and> x < 200 \<and> 300 \<le> y \<and> y < 350 then Some uploadBox
                  else if 400 \<le> x \<and> x < 700 \<and> 0 \<le> y \<and> y < 400 then Some scrollPane
                  else if 0 \<le> x \<and> x < 1024 \<and> 0 \<le> y \<and> y < 768 then Some bodyEl
                  else None),
         shadowRoots = []\<rparr>,
      frames = [(3, SecurityError)]\<rparr>"

text \<open>A cross-origin \<open><iframe role="button">\<close>, alone on its page.\<close>

definition roleIframe :: element where
  "roleIframe =
     Element (node 2 ''iframe'' [(''role'', ''button'')] (box 0 0 300 150)) (Some bodyEl)"

definition pageRoleIframe :: page where
  "pageRoleIframe =
     \<lparr>win = win0,
      mainDocument =
        \<lparr>allElements = [htmlEl, bodyEl, roleIframe], documentElementId = 0, bodyId = 1,
         elementFromPoint =
           (\<lambda>x y. if 0 \<le> x \<and> x < 300 \<and> 0 \<le> y \<and> y < 150 then Some roleIframe
                  else if 0 \<le> x \<and> x < 1024 \<and> 0 \<le> y \<and> y < 768 then Some bodyEl
                  else None),
         shadowRoots = []\<rparr>,
      frames = [(2, SecurityError)]\<rparr>"




text \<open>
  Two siblings under \<open>body\<close>: a 40 by 40 pixel \<open><div class="dropdown-toggle">\<close> lying
  on top of the corner of a 100 by 100 pixel \<open><button>\<close>.
\<close>

definition toggleDiv :: element where
  "toggleDiv =
     Element (node 2 ''div'' [(''class'', ''dropdown-toggle'')] (box 0 0 40 40)) (Some bodyEl)"

definition wideButton :: element where
  "wideButton = Element (node 3 ''button'' [] (box 0 0 100 100)) (Some bodyEl)"

definition pageSiblings :: page where
  "pageSiblings =
     \<lparr>win = win0,
      mainDocument =
        \<lparr>allElements = [htmlEl, bodyEl, toggleDiv, wideButton], documentElementId = 0,
         bodyId = 1,
         elementFromPoint =
           (\<lambda>x y. if 0 \<le> x \<and> x < 40 \<and> 0 \<le> y \<and> y < 40 then Some toggleDiv
                  else if 0 \<le> x \<and> x < 100 \<and> 0 \<le> y \<and> y < 100 then Some wideButton
                  else if 0 \<le> x \<and> x < 1024 \<and> 0 \<le> y \<and> y < 768 then Some bodyEl
                  else None),
         shadowRoots = []\<rparr>,
      frames = []\<rparr>"

definition clock0 :: clock where
  "clock0 = \<lparr>atCacheCreation = 1000, atClearCache = 1001, atReturn = 1002\<rparr>"

text \<open>
  Notions for the scroll-region scan: the ledger entry the scan pushes, the filters an
  element passes before the duplicate check, and two invariants of the ledger.
\<close>

definition scrollbarEntry :: "element \<Rightarrow> rect \<Rightarrow> processed_area" where
  "scrollbarEntry el rect =
     \<lparr>pa_left = rect_left rect, pa_top = rect_top rect,
      pa_right = rect_right rect, pa_bottom = rect_bottom rect,
      pa_element = el, pa_priority = None, pa_area = None, pa_isScrollbar = True\<rparr>"

definition scrollRegionCandidate :: "args \<Rightarrow> page \<Rightarrow> dom_cache \<Rightarrow> element \<Rightarrow> bool" where
  "scrollRegionCandidate a pg c el =
     (isInViewport a (win pg) c el \<and> isElementVisible c el
      \<and> 10 \<le> clientWidth (el_props el) \<and> 10 \<le> clientHeight (el_props el)
      \<and> (hasVerticalScroll c el \<or> hasHorizontalScroll c el)
      \<and> isTopElement (win pg) (mainDocument pg) c el
      \<and> \<not> (hasVerticalScroll c el
             \<and> offsetWidth (el_props el) - clientWidth (el_props el) < 1)
      \<and> \<not> (hasHorizontalScroll c el
             \<and> offsetHeight (el_props el) - clientHeight (el_props el) < 1))"

definition noScrollbarEntries :: "pass_state \<Rightarrow> bool" where
  "noScrollbarEntries st = list_all (\<lambda>pa. \<not> pa_isScrollbar pa) (processedElementAreas st)"

definition scrollEntriesFrom ::
  "args \<Rightarrow> page \<Rightarrow> dom_cache \<Rightarrow> element set \<Rightarrow> pass_state \<Rightarrow> bool" where
  "scrollEntriesFrom a pg c S st =
     (\<forall>pa \<in> set (processedElementAreas st). pa_isScrollbar pa \<longrightarrow>
        (\<exists>e' \<in> S. \<exists>r'. scrollRegionCandidate a pg c e'
                      \<and> getCachedBoundingRect c e' = Some r' \<and> pa = scrollbarEntry e' r'))"

text \<open>
  A scrollable pane with overlay scrollbars (no gutter: \<open>offsetWidth = clientWidth\<close>),
  alone on its page.
\<close>

definition overlayPane :: element where
  "overlayPane =
     Element
       ((node 2 ''div'' [] (box 400 0 300 400))
          \<lparr>scrollHeight := 2000, computedStyle := plainStyle\<lparr>overflowY := ''auto''\<rparr>\<rparr>)
       (Some bodyEl)"

definition pageOverlay :: page where
  "pageOverlay =
     \<lparr>win = win0,
      mainDocument =
        \<lparr>allElements = [htmlEl, bodyEl, overlayPane], documentElementId = 0, bodyId = 1,
         elementFromPoint =
           (\<lambda>x y. if 400 \<le> x \<and> x < 700 \<and> 0 \<le> y \<and> y < 400 then Some overlayPane
                  else if 0 \<le> x \<and> x < 1024 \<and> 0 \<le> y \<and> y < 768 then Some bodyEl
                  else None),
         shadowRoots = []\<rparr>,
      frames = []\<rparr>"






section \<open>Properties\<close>

subsection \<open>Cache invalidation\<close>

text \<open>
  C5 (as amended). \<open>clearCache(force)\<close> resets both maps exactly when \<open>force\<close> is set,
  or the window width or height differs from the recorded one, or strictly more than
  30000 ms have passed since \<open>lastRunTimestamp\<close>; otherwise both maps and the recorded
  window size stay as they are. In both cases \<open>lastRunTimestamp\<close> becomes the current
  time, so the 30000 ms run from the previous call of \<open>clearCache\<close> (or from the creation
  of the cache), whether or not that call reset the maps.
\<close>

theorem clearCache_behaviour:
  "fst (clearCache force ws now c) =
     (force \<or> ws_width ws \<noteq> ws_width (previousWindowSize c)
        \<or> ws_height ws \<noteq> ws_height (previousWindowSize c)
        \<or> now - lastRunTimestamp c > 30000)
   \<and> boundingRects (snd (clearCache force ws now c)) =
       (if fst (clearCache force ws now c) then Map.empty else boundingRects c)
   \<and> computedStyles (snd (clearCache force ws now c)) =
       (if fst (clearCache force ws now c) then Map.empty else computedStyles c)
   \<and> previousWindowSize (snd (clearCache force ws now c)) =
       (if fst (clearCache force ws now c) then ws else previousWindowSize c)
   \<and> lastRunTimestamp (snd (clearCache force ws now c)) = now"
  by (simp add: clearCache_def)

text \<open>
  On the cache of node 7: after 30001 ms the maps are reset; after 20000 ms they are
  kept and only the timestamp moves.
\<close>

theorem clearCache_behaviour_witness:
  "fst (clearCache False (previousWindowSize staleCache) 30001 staleCache)
   \<and> boundingRects (snd (clearCache False (previousWindowSize staleCache) 30001 staleCache))
        = Map.empty
   \<and> \<not> fst (clearCache False (previousWindowSize staleCache) 20000 staleCache)
   \<and> boundingRects (snd (clearCache False (previousWindowSize staleCache) 20000 staleCache))
        = boundingRects staleCache
   \<and> lastRunTimestamp (snd (clearCache False (previousWindowSize staleCache) 20000 staleCache))
        = 20000"
  using clearCache_behaviour [of False "previousWindowSize staleCache" 30001 staleCache]
        clearCache_behaviour [of False "previousWindowSize staleCache" 20000 staleCache]
  by (simp add: staleCache_def)

text \<open>
  C5 as stated fails at the boundary: with exactly 30000 ms elapsed, no force and an
  unchanged window, the entries for node 7 are still in both maps after the call.
\<close>

theorem clearCache_at_30000_counterexample:
  "30000 - lastRunTimestamp staleCache \<ge> 30000
   \<and> boundingRects staleCache 7 = Some (box 0 0 10 10)
   \<and> boundingRects (snd (clearCache False (previousWindowSize staleCache) 30000 staleCache)) 7
        = Some (box 0 0 10 10)
   \<and> computedStyles (snd (clearCache False (previousWindowSize staleCache) 30000 staleCache)) 7
        = Some plainStyle"
  by (simp add: clearCache_def staleCache_def)

subsection \<open>Interactivity classifier\<close>

text \<open>
  C7. An element whose \<open>role\<close> attribute is \<open>presentation\<close> is not interactive, whatever
  its cursor, tag, classes, handlers, ARIA state, draggability or editability.
\<close>

theorem presentation_role_not_interactive:
  "getAttribute el ''role'' = Some ''presentation'' \<Longrightarrow> isInteractiveElement c el = False"
  by (simp add: isInteractiveElement_def attrIs_def)

text \<open>
  A button with a pointer cursor, a click handler and \<open>draggable\<close>, which every later
  rule would accept, is rejected for its role.
\<close>

theorem presentation_role_not_interactive_witness:
  "getAttribute presentationButton ''role'' = Some ''presentation''
   \<and> doesElementHaveInteractivePointer freshCache presentationButton
   \<and> hasClickHandler presentationButton \<and> isDraggable presentationButton
   \<and> isInteractiveElement freshCache presentationButton = False"
proof -
  have r: "getAttribute presentationButton ''role'' = Some ''presentation''"
    by (simp add: presentationButton_def getAttribute_def node_def)
  have p: "doesElementHaveInteractivePointer freshCache presentationButton"
    by code_simp
  have h: "hasClickHandler presentationButton"
    by code_simp
  have d: "isDraggable presentationButton"
    by code_simp
  from presentation_role_not_interactive [OF r, of freshCache] r p h d show ?thesis
    by simp
qed

subsection \<open>How the phases of a pass extend the result\<close>

lemma appended_refl: "appended P st st"
  by (simp add: appended_def)

lemma appended_trans:
  assumes "appended P st st'" and "appended P st' st''"
  shows "appended P st st''"
proof -
  from assms(1) obtain n1 where 1: "result st' = result st @ n1" "list_all P n1"
    "highlightIndex st' = highlightIndex st + length n1"
    "map d_highlightIndex n1 = [highlightIndex st ..< highlightIndex st + length n1]"
    by (auto simp: appended_def)
  from assms(2) obtain n2 where 2: "result st'' = result st' @ n2" "list_all P n2"
    "highlightIndex st'' = highlightIndex st' + length n2"
    "map d_highlightIndex n2 = [highlightIndex st' ..< highlightIndex st' + length n2]"
    by (auto simp: appended_def)
  have "[highlightIndex st ..< highlightIndex st + length n1 + length n2]
        = [highlightIndex st ..< highlightIndex st + length n1]
          @ [highlightIndex st + length n1 ..< highlightIndex st + length n1 + length n2]"
    by (metis le_add1 upt_add_eq_append)
  with 1 2 show ?thesis
    unfolding appended_def
    by (intro exI [of _ "n1 @ n2"]) (simp add: add.assoc)
qed

lemma appended_mono:
  assumes "appended P st st'" and "\<And>d. P d \<Longrightarrow> Q d"
  shows "appended Q st st'"
  using assms unfolding appended_def list_all_iff by blast

lemma appended_ledger:
  "appended P st st' \<Longrightarrow> appended P st (st'\<lparr>processedElementAreas := l\<rparr>)"
  by (simp add: appended_def)

lemma appended_pushResult:
  assumes "P d" and "d_highlightIndex d = highlightIndex st"
  shows "appended P st (pushResult d st)"
  unfolding appended_def pushResult_def using assms
  by (intro exI [of _ "[d]"]) simp

lemma appended_foldl:
  assumes "\<And>s x. x \<in> set xs \<Longrightarrow> appended P s (f s x)"
  shows "appended P st (foldl f st xs)"
  using assms
proof (induction xs arbitrary: st)
  case Nil
  show ?case by (simp add: appended_refl)
next
  case (Cons x xs)
  have "appended P st (f st x)" using Cons.prems by simp
  moreover have "appended P (f st x) (foldl f (f st x) xs)"
    using Cons.IH Cons.prems by simp
  ultimately show ?case using appended_trans by fastforce
qed

lemma isDuplicate_tiny:
  "rect_width rect < 5 \<or> rect_height rect < 5 \<Longrightarrow>
     isDuplicateInteractiveElement c ledger el rect = (True, ledger)"
  by (simp add: isDuplicateInteractiveElement_def)

lemma processCandidate_tiny:
  "rect_width rect < 5 \<or> rect_height rect < 5 \<Longrightarrow>
     processCandidate c iframeElement shadowHost st (el, rect) = st"
  by (simp add: processCandidate_def isDuplicate_tiny)


lemma d_highlightIndex_created:
  "d_highlightIndex (withIframeInfo iframeElement (withShadowInfo shadowHost (createElementData el i))) = i"
  by (simp add: withIframeInfo_def withShadowInfo_def createElementData_def split: option.splits)

lemma docDescriptor_created:
  "docDescriptor iframeElement
     (withIframeInfo iframeElement (withShadowInfo shadowHost (createElementData el i)))"
  by (simp add: docDescriptor_def withIframeInfo_def withShadowInfo_def createElementData_def
      split: option.splits)

lemma appended_processCandidate_doc:
  "appended (docDescriptor iframeElement) st (processCandidate c iframeElement shadowHost st cand)"
  unfolding processCandidate_def
  by (auto split: prod.splits bool.splits
      intro!: appended_trans [OF appended_ledger [OF appended_refl] appended_pushResult]
              appended_ledger appended_refl
      simp: d_highlightIndex_created docDescriptor_created)

lemma appended_processHiddenFileInput:
  "appended (docDescriptor iframeElement) st (processHiddenFileInput pg c doc iframeElement st fileInput)"
  unfolding processHiddenFileInput_def
  by (auto split: option.splits intro!: appended_refl appended_pushResult
      simp: Let_def docDescriptor_def withIframeInfo_def createElementData_def)

lemma appended_processHiddenFileInputs:
  "appended (docDescriptor iframeElement) st (processHiddenFileInputs pg c doc iframeElement st)"
  unfolding processHiddenFileInputs_def
  by (rule appended_foldl) (rule appended_processHiddenFileInput)

lemma appended_processShadowHost:
  "appended (docDescriptor iframeElement) st (processShadowHost a pg c doc iframeElement st host)"
  unfolding processShadowHost_def
  by (auto split: option.splits intro!: appended_refl appended_foldl appended_processCandidate_doc)

lemma appended_processShadowDOMElements:
  "appended (docDescriptor iframeElement) st (processShadowDOMElements a pg c doc iframeElement st)"
  unfolding processShadowDOMElements_def
  by (rule appended_foldl) (rule appended_processShadowHost)

lemma appended_processElementsInDocument:
  "appended (docDescriptor iframeElement) st (processElementsInDocument a pg c doc iframeElement st)"
  unfolding processElementsInDocument_def
  by (intro appended_trans [OF _ appended_processShadowDOMElements]
            appended_trans [OF _ appended_processHiddenFileInputs]
            appended_foldl appended_processCandidate_doc)

lemma appended_processIframe:
  "appended (iframeDescriptor iframe) st (processIframe a pg c st iframe)"
proof -
  have doc: "appended (iframeDescriptor iframe) st
               (processElementsInDocument a pg c d (Some iframe) st)" for d
    by (rule appended_mono [OF appended_processElementsInDocument])
       (simp add: iframeDescriptor_def docDescriptor_def)
  show ?thesis
    unfolding processIframe_def
    by (auto split: frame_access.splits intro!: appended_refl appended_pushResult doc
        simp: iframeDescriptor_def createElementData_def)
qed

lemma appended_scanScrollable:
  "appended scrollDescriptor st (scanScrollable a pg c st el)"
  unfolding scanScrollable_def
  by (auto split: option.splits
      intro!: appended_refl appended_trans [OF appended_ledger [OF appended_refl] appended_pushResult]
      simp: scrollDescriptor_def scrollbarData_def)

lemma appended_findScrollableElements:
  "appended scrollDescriptor st (findScrollableElements a pg c st)"
  unfolding findScrollableElements_def
  by (rule appended_foldl) (rule appended_scanScrollable)

lemma appended_findMainBrowserScrollbars:
  "appended mainScrollbarDescriptor st (findMainBrowserScrollbars pg st)"
proof -
  have one: "appended mainScrollbarDescriptor s (pushResult (mainScrollbarData pg v (highlightIndex s)) s)"
    for s v
    by (rule appended_pushResult)
       (simp_all add: mainScrollbarDescriptor_def mainScrollbarData_def Let_def)
  show ?thesis
    unfolding findMainBrowserScrollbars_def Let_def
    by (auto intro: appended_refl one appended_trans [OF one one])
qed

lemma appended_filter:
  assumes "appended (\<lambda>d. \<not> Q d) st st'"
  shows "filter Q (result st') = filter Q (result st)"
  using assms unfolding appended_def list_all_iff by auto

lemma appended_list_all:
  assumes "appended P st st'" and "list_all P (result st)"
  shows "list_all P (result st')"
  using assms unfolding appended_def by auto


lemma appended_any: "appended P st st' \<Longrightarrow> appended (\<lambda>d. True) st st'"
  by (erule appended_mono) simp

lemma appended_iframes:
  "appended (\<lambda>d. True) st (foldl (processIframe a pg c) st iframes)"
  by (rule appended_foldl) (rule appended_any [OF appended_processIframe])

lemma appended_pass:
  "appended (\<lambda>d. True) initialState
     (findMainBrowserScrollbars pg
        (findScrollableElements a pg c
           (foldl (processIframe a pg c)
              (processElementsInDocument a pg c (mainDocument pg) None initialState)
              (querySelectorAll (allElements (mainDocument pg)) iframeSelector))))"
proof -
  let ?s1 = "processElementsInDocument a pg c (mainDocument pg) None initialState"
  let ?s2 = "foldl (processIframe a pg c) ?s1
               (querySelectorAll (allElements (mainDocument pg)) iframeSelector)"
  let ?s3 = "findScrollableElements a pg c ?s2"
  have 1: "appended (\<lambda>d. True) initialState ?s1"
    by (rule appended_any [OF appended_processElementsInDocument])
  have 2: "appended (\<lambda>d. True) ?s1 ?s2"
    by (rule appended_iframes)
  have 3: "appended (\<lambda>d. True) ?s2 ?s3"
    by (rule appended_any [OF appended_findScrollableElements])
  have 4: "appended (\<lambda>d. True) ?s3 (findMainBrowserScrollbars pg ?s3)"
    by (rule appended_any [OF appended_findMainBrowserScrollbars])
  from 1 2 3 4 show ?thesis
    by (blast intro: appended_trans)
qed

subsection \<open>Highlight indices\<close>

text \<open>
  C6. In the descriptor list of a pass the \<open>highlightIndex\<close> values are
  \<open>0, 1, ..., n - 1\<close> in list order, whatever mix of ordinary elements, cross-origin
  iframe placeholders, hidden-file-input proxies, scroll regions and viewport scrollbars
  the list holds: the descriptor at position \<open>k\<close> carries index \<open>k\<close>.
\<close>

theorem highlightIndex_contiguous:
  "map d_highlightIndex (findViewportInteractiveElements a pg c)
     = [0 ..< length (findViewportInteractiveElements a pg c)]"
  using appended_pass [of pg a c]
  unfolding appended_def findViewportInteractiveElements_def
  by (auto simp: initialState_def)

subsection \<open>Deduplication: tiny elements and the fast path\<close>

text \<open>
  C10. A candidate whose rectangle is narrower or lower than 5 pixels is reported as a
  duplicate before its score is looked at, with the ledger untouched; the second pass
  then leaves the whole state as it is, so that such a candidate can be deleted from the
  candidate list without any effect on the outcome: it is never emitted as an ordinary
  element descriptor.
\<close>

theorem tiny_candidate_never_emitted:
  assumes "rect_width rect < 5 \<or> rect_height rect < 5"
  shows "isDuplicateInteractiveElement c ledger el rect = (True, ledger)
         \<and> processCandidate c iframeElement shadowHost st (el, rect) = st
         \<and> foldl (processCandidate c iframeElement shadowHost) st (before @ (el, rect) # after)
             = foldl (processCandidate c iframeElement shadowHost) st (before @ after)"
  using assms by (simp add: isDuplicate_tiny processCandidate_tiny)

text \<open>
  The 4 by 4 pixel link passes every filter of the first pass and scores 13, and is
  dropped all the same.
\<close>

theorem tiny_candidate_never_emitted_witness:
  "rect_width (box 10 10 4 4) < 5
   \<and> 12 \<le> getElementPriority freshCache tinyLink
   \<and> candidateOf args0 pageTiny freshCache (mainDocument pageTiny) None tinyLink
        = Some (tinyLink, box 10 10 4 4)
   \<and> isDuplicateInteractiveElement freshCache [] tinyLink (box 10 10 4 4) = (True, [])
   \<and> processCandidate freshCache None None initialState (tinyLink, box 10 10 4 4) = initialState
   \<and> foldl (processCandidate freshCache None None) initialState ([] @ (tinyLink, box 10 10 4 4) # [])
        = foldl (processCandidate freshCache None None) initialState ([] @ [])"
proof -
  have w: "rect_width (box 10 10 4 4) < 5"
    by (simp add: box_def)
  have s: "12 \<le> getElementPriority freshCache tinyLink"
    by code_simp
  have cnd: "candidateOf args0 pageTiny freshCache (mainDocument pageTiny) None tinyLink
        = Some (tinyLink, box 10 10 4 4)"
    by code_simp
  from w have "rect_width (box 10 10 4 4) < 5 \<or> rect_height (box 10 10 4 4) < 5" ..
  from tiny_candidate_never_emitted [OF this, of freshCache "[]" tinyLink None None initialState "[]" "[]"]
       w s cnd
  show ?thesis by blast
qed








subsection \<open>Cross-origin iframes\<close>

lemma frameAccess_id:
  "el_id g = el_id f \<Longrightarrow> frameAccess pg g = frameAccess pg f"
  by (simp add: frameAccess_def)

lemma processIframe_cross:
  assumes "isInViewport a (win pg) c f" and "isElementVisible c f"
    and "frameAccess pg f = SecurityError" and "isInteractiveElement c f"
  shows "processIframe a pg c st f =
           pushResult ((createElementData f (highlightIndex st))
                         \<lparr>d_isIframe := True, d_crossDomain := True\<rparr>) st"
  using assms by (simp add: processIframe_def)

lemma processIframe_other:
  assumes "el_id g \<noteq> el_id f"
  shows "appended (\<lambda>d. \<not> (d_crossDomain d \<and> d_node d = el_id f)) st (processIframe a pg c st g)"
proof (rule appended_mono [OF appended_processIframe])
  fix d assume "iframeDescriptor g d"
  then show "\<not> (d_crossDomain d \<and> d_node d = el_id f)"
    using assms unfolding iframeDescriptor_def by metis
qed

lemma processIframe_SecurityError:
  assumes "frameAccess pg g = SecurityError"
  shows "processIframe a pg c st g = st
         \<or> processIframe a pg c st g =
             pushResult ((createElementData g (highlightIndex st))
                           \<lparr>d_isIframe := True, d_crossDomain := True\<rparr>) st"
  using assms by (simp add: processIframe_def)

lemma processIframe_not_inside:
  assumes "frameAccess pg f = SecurityError"
  shows "appended (\<lambda>d. d_inIframe d \<noteq> Some (el_id f)) st (processIframe a pg c st g)"
proof (cases "el_id g = el_id f")
  case True
  have "frameAccess pg g = SecurityError"
    using assms frameAccess_id [OF True, of pg] by simp
  from processIframe_SecurityError [OF this, of a c st]
  show ?thesis
  proof
    assume "processIframe a pg c st g = st"
    then show ?thesis by (simp add: appended_refl)
  next
    assume p: "processIframe a pg c st g =
             pushResult ((createElementData g (highlightIndex st))
                           \<lparr>d_isIframe := True, d_crossDomain := True\<rparr>) st"
    show ?thesis
      unfolding p
      by (rule appended_pushResult) (simp_all add: createElementData_def)
  qed
next
  case False
  show ?thesis
  proof (rule appended_mono [OF appended_processIframe])
    fix d assume "iframeDescriptor g d"
    then have "d_inIframe d = None \<or> d_inIframe d = Some (el_id g)"
      by (simp add: iframeDescriptor_def docDescriptor_def split: if_splits)
    with False show "d_inIframe d \<noteq> Some (el_id f)"
      by (elim disjE) simp_all
  qed
qed

lemma appended_foldl_filter:
  assumes "\<And>s x. x \<in> set xs \<Longrightarrow> appended (\<lambda>d. \<not> Q d) s (f s x)"
  shows "filter Q (result (foldl f st xs)) = filter Q (result st)"
  by (rule appended_filter [OF appended_foldl]) (rule assms)

text \<open>
  C4 (as amended). For an iframe of the top-level document that is in the viewport and
  visible, whose document cannot be read (the access throws), and that passes the
  interactivity classifier, the result holds exactly one descriptor flagged
  cross-domain for that iframe, and no descriptor of a node inside it. (Node identities
  in the document are distinct.) The main-document pass may emit a further, unflagged
  descriptor for the iframe element itself when the element matches the candidate
  selector.
\<close>

theorem cross_origin_iframe_descriptor:
  assumes "distinct (map el_id (allElements (mainDocument pg)))"
    and "iframe \<in> set (allElements (mainDocument pg))" and "el_tag iframe = ''iframe''"
    and "isInViewport a (win pg) c iframe" and "isElementVisible c iframe"
    and "frameAccess pg iframe = SecurityError" and "isInteractiveElement c iframe"
  shows "length (filter (\<lambda>d. d_crossDomain d \<and> d_node d = el_id iframe)
                  (findViewportInteractiveElements a pg c)) = 1
         \<and> list_all (\<lambda>d. d_inIframe d \<noteq> Some (el_id iframe))
              (findViewportInteractiveElements a pg c)"
proof -
  let ?Q = "\<lambda>d. d_crossDomain d \<and> d_node d = el_id iframe"
  let ?N = "\<lambda>d. d_inIframe d \<noteq> Some (el_id iframe)"
  let ?iframes = "querySelectorAll (allElements (mainDocument pg)) iframeSelector"
  let ?s1 = "processElementsInDocument a pg c (mainDocument pg) None initialState"
  let ?s2 = "foldl (processIframe a pg c) ?s1 ?iframes"
  let ?s3 = "findScrollableElements a pg c ?s2"
  let ?s4 = "findMainBrowserScrollbars pg ?s3"
  have res: "findViewportInteractiveElements a pg c = result ?s4"
    by (simp add: findViewportInteractiveElements_def)
  have a1: "appended (docDescriptor None) initialState ?s1"
    by (rule appended_processElementsInDocument)
  have a3: "appended scrollDescriptor ?s2 ?s3"
    by (rule appended_findScrollableElements)
  have a4: "appended mainScrollbarDescriptor ?s3 ?s4"
    by (rule appended_findMainBrowserScrollbars)
  \<comment> \<open>the iframe occurs once in the list of iframes\<close>
  have "iframe \<in> set ?iframes"
    using assms(2,3) by (simp add: querySelectorAll_def iframeSelector_def)
  then obtain ys zs where split: "?iframes = ys @ iframe # zs"
    by (auto dest: split_list)
  have "distinct (map el_id ?iframes)"
    using assms(1) by (simp add: querySelectorAll_def distinct_map_filter)
  then have "el_id iframe \<notin> el_id ` (set ys \<union> set zs)"
    unfolding split by auto
  then have others: "\<And>g. g \<in> set ys \<union> set zs \<Longrightarrow> el_id g \<noteq> el_id iframe"
    by (metis imageI)
  \<comment> \<open>counting the flagged descriptors of the iframe\<close>
  have q1: "filter ?Q (result ?s1) = []"
    using appended_filter [OF appended_mono [OF a1], of ?Q]
    by (simp add: docDescriptor_def initialState_def)
  let ?sy = "foldl (processIframe a pg c) ?s1 ys"
  let ?sf = "processIframe a pg c ?sy iframe"
  have qy: "filter ?Q (result ?sy) = filter ?Q (result ?s1)"
  proof (rule appended_foldl_filter)
    fix s x assume "x \<in> set ys"
    then have "el_id x \<noteq> el_id iframe"
      using others by simp
    then show "appended (\<lambda>d. \<not> (d_crossDomain d \<and> d_node d = el_id iframe)) s
                 (processIframe a pg c s x)"
      by (rule processIframe_other)
  qed
  have sf: "?sf = pushResult ((createElementData iframe (highlightIndex ?sy))
                                \<lparr>d_isIframe := True, d_crossDomain := True\<rparr>) ?sy"
    by (rule processIframe_cross [OF assms(4-7)])
  have qf: "length (filter ?Q (result ?sf)) = 1"
    by (simp add: sf pushResult_def qy q1 createElementData_def)
  have s2: "?s2 = foldl (processIframe a pg c) ?sf zs"
    by (simp add: split)
  have qz: "filter ?Q (result ?s2) = filter ?Q (result ?sf)"
    unfolding s2
  proof (rule appended_foldl_filter)
    fix s x assume "x \<in> set zs"
    then have "el_id x \<noteq> el_id iframe"
      using others by simp
    then show "appended (\<lambda>d. \<not> (d_crossDomain d \<and> d_node d = el_id iframe)) s
                 (processIframe a pg c s x)"
      by (rule processIframe_other)
  qed
  have q3: "filter ?Q (result ?s3) = filter ?Q (result ?s2)"
    by (rule appended_filter [OF appended_mono [OF a3]]) (simp add: scrollDescriptor_def)
  have q4: "filter ?Q (result ?s4) = filter ?Q (result ?s3)"
    by (rule appended_filter [OF appended_mono [OF a4]]) (simp add: mainScrollbarDescriptor_def)
  have count: "length (filter ?Q (result ?s4)) = 1"
    by (simp only: q4 q3 qz qf)
  \<comment> \<open>no descriptor lies inside the iframe\<close>
  have n1: "list_all ?N (result ?s1)"
    by (rule appended_list_all [OF appended_mono [OF a1]])
       (simp_all add: docDescriptor_def initialState_def)
  have "appended ?N ?s1 ?s2"
    by (rule appended_foldl) (rule processIframe_not_inside [OF assms(6)])
  then have n2: "list_all ?N (result ?s2)"
    using n1 by (rule appended_list_all)
  have n3: "list_all ?N (result ?s3)"
    by (rule appended_list_all [OF appended_mono [OF a3] n2]) (simp add: scrollDescriptor_def)
  have n4: "list_all ?N (result ?s4)"
    by (rule appended_list_all [OF appended_mono [OF a4] n3])
       (simp add: mainScrollbarDescriptor_def)
  from count n4 show ?thesis
    by (simp only: res)
qed

text \<open>The consent iframe of the example page: one flagged descriptor, nothing inside.\<close>

theorem cross_origin_iframe_descriptor_witness:
  "frameAccess pageAll consentFrame = SecurityError
   \<and> isInteractiveElement freshCache consentFrame
   \<and> length (filter (\<lambda>d. d_crossDomain d \<and> d_node d = el_id consentFrame)
               (findViewportInteractiveElements args0 pageAll freshCache)) = 1
   \<and> list_all (\<lambda>d. d_inIframe d \<noteq> Some (el_id consentFrame))
        (findViewportInteractiveElements args0 pageAll freshCache)"
proof -
  have 1: "distinct (map el_id (allElements (mainDocument pageAll)))"
    by code_simp
  have 2: "consentFrame \<in> set (allElements (mainDocument pageAll))"
    by (simp add: pageAll_def)
  have 3: "el_tag consentFrame = ''iframe''"
    by code_simp
  have 4: "isInViewport args0 (win pageAll) freshCache consentFrame"
    by code_simp
  have 5: "isElementVisible freshCache consentFrame"
    by code_simp
  have 6: "frameAccess pageAll consentFrame = SecurityError"
    by (simp add: frameAccess_def pageAll_def consentFrame_def el_id_def node_def)
  have 7: "isInteractiveElement freshCache consentFrame"
    by code_simp
  from cross_origin_iframe_descriptor [OF 1 2 3 4 5 6 7] 6 7 show ?thesis
    by simp
qed

text \<open>
  C4 as stated fails when the iframe also matches the candidate selector: the
  cross-origin \<open><iframe role="button">\<close> is in the viewport, visible and interactive,
  and the result holds two descriptors for it, an ordinary one from the main-document
  pass followed by the one flagged cross-domain.
\<close>

theorem cross_origin_iframe_twice_counterexample:
  "el_tag roleIframe = ''iframe''
   \<and> isInViewport args0 (win pageRoleIframe) freshCache roleIframe
   \<and> isElementVisible freshCache roleIframe
   \<and> frameAccess pageRoleIframe roleIframe = SecurityError
   \<and> isInteractiveElement freshCache roleIframe
   \<and> map (\<lambda>d. (d_node d, d_crossDomain d))
         (findViewportInteractiveElements args0 pageRoleIframe freshCache)
        = [(el_id roleIframe, False), (el_id roleIframe, True)]"
proof -
  have "frameAccess pageRoleIframe roleIframe = SecurityError"
    by (simp add: frameAccess_def pageRoleIframe_def roleIframe_def el_id_def node_def)
  moreover have "el_tag roleIframe = ''iframe''"
    by code_simp
  moreover have "isInViewport args0 (win pageRoleIframe) freshCache roleIframe"
    by code_simp
  moreover have "isElementVisible freshCache roleIframe"
    by code_simp
  moreover have "isInteractiveElement freshCache roleIframe"
    by code_simp
  moreover have "map (\<lambda>d. (d_node d, d_crossDomain d))
         (findViewportInteractiveElements args0 pageRoleIframe freshCache)
        = [(el_id roleIframe, False), (el_id roleIframe, True)]"
    by code_simp
  ultimately show ?thesis
    by blast
qed

subsection \<open>Overlapping siblings\<close>

text \<open>
  C2, evaluated. The two siblings overlap by the whole area of the smaller one and their
  scores are 2 and 10. The smaller one is processed first and emitted; for the larger one
  the ledger loop decides to replace the entry of the smaller one (\<open>Splice\<close>), which
  removes it from the ledger only: the descriptor already pushed stays, and the pass
  returns both descriptors instead of the higher-scoring one alone.
\<close>

theorem sibling_replacement_keeps_both:
  "parentElement toggleDiv = parentElement wideButton
   \<and> getElementPriority freshCache toggleDiv = 2
   \<and> getElementPriority freshCache wideButton = 10
   \<and> entryVerdict freshCache wideButton (box 0 0 100 100) 10
        \<lparr>pa_left = 0, pa_top = 0, pa_right = 40, pa_bottom = 40, pa_element = toggleDiv,
         pa_priority = None, pa_area = None, pa_isScrollbar = False\<rparr> = Splice
   \<and> map d_node (res_interactiveElements (domTreeResult args0 pageSiblings clock0))
        = [el_id toggleDiv, el_id wideButton]"
  by code_simp

subsection \<open>Scroll regions\<close>

lemma getCachedBoundingRect_Some: "\<exists>r. getCachedBoundingRect c el = Some r"
  by (simp add: getCachedBoundingRect_def split: option.splits)

lemma scanScrollable_skip:
  "\<not> scrollRegionCandidate a pg c el \<Longrightarrow> scanScrollable a pg c st el = st"
  by (auto simp: scrollRegionCandidate_def scanScrollable_def)

lemma scanScrollable_candidate:
  assumes "scrollRegionCandidate a pg c el" and "getCachedBoundingRect c el = Some rect"
  shows "scanScrollable a pg c st el =
           (if list_ex (overlapsScrollbarEntry rect) (processedElementAreas st) then st
            else pushResult (scrollbarData c el rect (highlightIndex st))
                   (st\<lparr>processedElementAreas :=
                         processedElementAreas st @ [scrollbarEntry el rect]\<rparr>))"
  using assms
  by (auto simp: scrollRegionCandidate_def scanScrollable_def scrollbarEntry_def)

lemma ledgerLoop_subset:
  "set (snd (ledgerLoop c el rect p kept rest)) \<subseteq> set kept \<union> set rest"
proof (induction rest arbitrary: kept)
  case Nil
  show ?case by simp
next
  case (Cons pa rest)
  show ?case
  proof (cases "entryVerdict c el rect p pa")
    case Keep
    then show ?thesis using Cons.IH [of "kept @ [pa]"] by auto
  next
    case Splice
    then show ?thesis using Cons.IH [of kept] by auto
  next
    case ReturnTrue
    then show ?thesis by simp
  qed
qed

lemma isDuplicate_noScrollbar:
  assumes "list_all (\<lambda>pa. \<not> pa_isScrollbar pa) ledger"
  shows "list_all (\<lambda>pa. \<not> pa_isScrollbar pa)
           (snd (isDuplicateInteractiveElement c ledger el rect))"
proof -
  have loop: "list_all (\<lambda>pa. \<not> pa_isScrollbar pa) (snd (ledgerLoop c el rect p [] ledger))" for p
    using ledgerLoop_subset [of c el rect p "[]" ledger] assms
    unfolding list_all_iff by auto
  show ?thesis
    unfolding isDuplicateInteractiveElement_def Let_def
    using assms loop [of "getElementPriority c el"]
    by (auto split: prod.splits bool.splits)
qed

lemma processCandidate_noScrollbar:
  "noScrollbarEntries st \<Longrightarrow> noScrollbarEntries (processCandidate c iframeElement shadowHost st cand)"
  using isDuplicate_noScrollbar [of "processedElementAreas st" c "fst cand" "snd cand"]
  unfolding noScrollbarEntries_def processCandidate_def pushResult_def
  by (auto split: prod.splits bool.splits)

lemma processHiddenFileInput_noScrollbar:
  "noScrollbarEntries st \<Longrightarrow>
     noScrollbarEntries (processHiddenFileInput pg c doc iframeElement st x)"
  unfolding noScrollbarEntries_def processHiddenFileInput_def pushResult_def Let_def
  by (simp split: option.splits)

lemma foldl_noScrollbar:
  assumes "\<And>s x. noScrollbarEntries s \<Longrightarrow> noScrollbarEntries (f s x)"
    and "noScrollbarEntries st"
  shows "noScrollbarEntries (foldl f st xs)"
  using assms(2) by (induction xs arbitrary: st) (simp_all add: assms(1))

lemma pushResult_noScrollbar:
  "noScrollbarEntries st \<Longrightarrow> noScrollbarEntries (pushResult d st)"
  by (simp add: noScrollbarEntries_def pushResult_def)

lemma processShadowHost_noScrollbar:
  assumes "noScrollbarEntries st"
  shows "noScrollbarEntries (processShadowHost a pg c doc iframeElement st host)"
proof (cases "shadowRoot doc host")
  case None
  then show ?thesis using assms by (simp add: processShadowHost_def)
next
  case (Some shadowTree)
  have "noScrollbarEntries
          (foldl (processCandidate c iframeElement (Some host)) st
             (candidateElements a pg c doc iframeElement
                (querySelectorAll shadowTree candidateSelector)))"
    using processCandidate_noScrollbar assms by (rule foldl_noScrollbar)
  then show ?thesis using Some by (simp add: processShadowHost_def)
qed

lemma processElementsInDocument_noScrollbar:
  assumes "noScrollbarEntries st"
  shows "noScrollbarEntries (processElementsInDocument a pg c doc iframeElement st)"
proof -
  let ?s1 = "foldl (processCandidate c iframeElement None) st
               (candidateElements a pg c doc iframeElement
                  (querySelectorAll (allElements doc) candidateSelector))"
  let ?s2 = "processHiddenFileInputs pg c doc iframeElement ?s1"
  have 1: "noScrollbarEntries ?s1"
    using processCandidate_noScrollbar assms by (rule foldl_noScrollbar)
  have 2: "noScrollbarEntries ?s2"
    unfolding processHiddenFileInputs_def
    using processHiddenFileInput_noScrollbar 1 by (rule foldl_noScrollbar)
  show ?thesis
    unfolding processElementsInDocument_def processShadowDOMElements_def
    using processShadowHost_noScrollbar 2 by (rule foldl_noScrollbar)
qed

lemma processIframe_noScrollbar:
  assumes "noScrollbarEntries st"
  shows "noScrollbarEntries (processIframe a pg c st iframe)"
proof (cases "frameAccess pg iframe")
  case NoDocument
  then show ?thesis using assms by (simp add: processIframe_def)
next
  case (SameOrigin iframeDoc)
  then show ?thesis
    using assms processElementsInDocument_noScrollbar [OF assms, of a pg c iframeDoc "Some iframe"]
    by (simp add: processIframe_def)
next
  case SecurityError
  then show ?thesis
    using assms pushResult_noScrollbar [OF assms]
    by (simp add: processIframe_def)
qed

lemma before_scan_noScrollbar:
  "noScrollbarEntries
     (foldl (processIframe a pg c)
        (processElementsInDocument a pg c (mainDocument pg) None initialState) iframes)"
proof -
  have "noScrollbarEntries initialState"
    by (simp add: noScrollbarEntries_def initialState_def)
  then have "noScrollbarEntries (processElementsInDocument a pg c (mainDocument pg) None initialState)"
    by (rule processElementsInDocument_noScrollbar)
  with processIframe_noScrollbar show ?thesis
    by (rule foldl_noScrollbar)
qed

lemma scrollEntriesFrom_mono:
  "scrollEntriesFrom a pg c S st \<Longrightarrow> S \<subseteq> T \<Longrightarrow> scrollEntriesFrom a pg c T st"
  unfolding scrollEntriesFrom_def by blast

lemma scanScrollable_entries:
  assumes "scrollEntriesFrom a pg c S st"
  shows "scrollEntriesFrom a pg c (insert x S) (scanScrollable a pg c st x)"
proof (cases "scrollRegionCandidate a pg c x")
  case False
  then show ?thesis
    using assms scrollEntriesFrom_mono [OF assms, of "insert x S"]
    by (simp add: scanScrollable_skip subset_insertI)
next
  case True
  obtain r where r: "getCachedBoundingRect c x = Some r"
    using getCachedBoundingRect_Some by blast
  have old: "scrollEntriesFrom a pg c (insert x S) st"
    by (rule scrollEntriesFrom_mono [OF assms]) (rule subset_insertI)
  show ?thesis
  proof (cases "list_ex (overlapsScrollbarEntry r) (processedElementAreas st)")
    case True
    with old show ?thesis
      using scanScrollable_candidate [OF \<open>scrollRegionCandidate a pg c x\<close> r, of st] by simp
  next
    case False
    then have eq: "scanScrollable a pg c st x =
        pushResult (scrollbarData c x r (highlightIndex st))
          (st\<lparr>processedElementAreas := processedElementAreas st @ [scrollbarEntry x r]\<rparr>)"
      using scanScrollable_candidate [OF \<open>scrollRegionCandidate a pg c x\<close> r, of st] by simp
    have "processedElementAreas (scanScrollable a pg c st x)
            = processedElementAreas st @ [scrollbarEntry x r]"
      by (simp add: eq pushResult_def)
    then show ?thesis
      using old True r unfolding scrollEntriesFrom_def by auto
  qed
qed

lemma foldl_scanScrollable_entries:
  assumes "scrollEntriesFrom a pg c S st"
  shows "scrollEntriesFrom a pg c (S \<union> set xs) (foldl (scanScrollable a pg c) st xs)"
  using assms
proof (induction xs arbitrary: S st)
  case Nil
  then show ?case by simp
next
  case (Cons x xs)
  have "scrollEntriesFrom a pg c (insert x S \<union> set xs)
          (foldl (scanScrollable a pg c) (scanScrollable a pg c st x) xs)"
    by (rule Cons.IH [OF scanScrollable_entries [OF Cons.prems]])
  then show ?case by simp
qed

lemma appended_scanScrollable_node:
  "appended (\<lambda>d. scrollDescriptor d \<and> d_node d = el_id el) st (scanScrollable a pg c st el)"
  unfolding scanScrollable_def
  by (auto split: option.splits
      intro!: appended_refl appended_trans [OF appended_ledger [OF appended_refl] appended_pushResult]
      simp: scrollDescriptor_def scrollbarData_def)

lemma scan_others_filter:
  assumes "\<And>x. x \<in> set xs \<Longrightarrow> el_id x \<noteq> el_id e"
  shows "filter (\<lambda>d. d_scrollData d \<noteq> None \<and> \<not> d_isMainScrollbar d \<and> d_node d = el_id e)
           (result (foldl (scanScrollable a pg c) st xs))
         = filter (\<lambda>d. d_scrollData d \<noteq> None \<and> \<not> d_isMainScrollbar d \<and> d_node d = el_id e)
             (result st)"
proof (rule appended_foldl_filter)
  fix s x assume "x \<in> set xs"
  then have ne: "el_id x \<noteq> el_id e" by (rule assms)
  show "appended (\<lambda>d. \<not> (d_scrollData d \<noteq> None \<and> \<not> d_isMainScrollbar d \<and> d_node d = el_id e))
          s (scanScrollable a pg c s x)"
  proof (rule appended_mono [OF appended_scanScrollable_node])
    fix d assume "scrollDescriptor d \<and> d_node d = el_id x"
    with ne show "\<not> (d_scrollData d \<noteq> None \<and> \<not> d_isMainScrollbar d \<and> d_node d = el_id e)"
      by simp
  qed
qed

lemma before_scan_no_scroll_descriptors:
  "list_all (\<lambda>d. d_scrollData d = None)
     (result (foldl (processIframe a pg c)
                (processElementsInDocument a pg c (mainDocument pg) None initialState) iframes))"
proof -
  let ?s1 = "processElementsInDocument a pg c (mainDocument pg) None initialState"
  have "appended (\<lambda>d. d_scrollData d = None) initialState ?s1"
    by (rule appended_mono [OF appended_processElementsInDocument])
       (simp add: docDescriptor_def)
  moreover have "appended (\<lambda>d. d_scrollData d = None) ?s1 (foldl (processIframe a pg c) ?s1 iframes)"
  proof (rule appended_foldl)
    fix s x
    show "appended (\<lambda>d. d_scrollData d = None) s (processIframe a pg c s x)"
      by (rule appended_mono [OF appended_processIframe])
         (simp add: iframeDescriptor_def docDescriptor_def split: if_splits)
  qed
  ultimately have "appended (\<lambda>d. d_scrollData d = None) initialState
                     (foldl (processIframe a pg c) ?s1 iframes)"
    by (rule appended_trans)
  then show ?thesis
    by (rule appended_list_all) (simp add: initialState_def)
qed

text \<open>
  C9 (as amended). Let an element of the top-level document (node identities distinct)
  be in the viewport, visible and topmost, with \<open>scrollHeight = 2000\<close>,
  \<open>clientHeight = 400\<close> and computed \<open>overflow-y: auto\<close>. If moreover its client width
  is at least 10 pixels, its vertical scrollbar gutter \<open>offsetWidth - clientWidth\<close> is at
  least 1 pixel, it is not horizontally scrollable with a gutter
  \<open>offsetHeight - clientHeight\<close> under 1 pixel, and no element before it in document order
  that itself qualifies as a scroll region overlaps it by more than 80% of the smaller
  area, then the result holds exactly one scroll-region descriptor for it, and that
  descriptor has \<open>maxScrollTop = 1600\<close>.
\<close>

theorem scroll_region_descriptor:
  assumes ids: "distinct (map el_id (allElements (mainDocument pg)))"
    and mem: "e \<in> set (allElements (mainDocument pg))"
    and vp: "isInViewport a (win pg) c e" and vis: "isElementVisible c e"
    and top: "isTopElement (win pg) (mainDocument pg) c e"
    and sh: "scrollHeight (el_props e) = 2000" and ch: "clientHeight (el_props e) = 400"
    and oy: "overflowY (getCachedComputedStyle c e) = ''auto''"
    and cw: "10 \<le> clientWidth (el_props e)"
    and gw: "1 \<le> offsetWidth (el_props e) - clientWidth (el_props e)"
    and gh: "\<not> (hasHorizontalScroll c e
                 \<and> offsetHeight (el_props e) - clientHeight (el_props e) < 1)"
    and rect: "getCachedBoundingRect c e = Some rect"
    and earlier: "list_all
           (\<lambda>e'. \<not> (scrollRegionCandidate a pg c e'
                      \<and> (case getCachedBoundingRect c e' of
                            None \<Rightarrow> False
                          | Some r' \<Rightarrow> overlapsScrollbarEntry rect (scrollbarEntry e' r'))))
           (takeWhile (\<lambda>x. el_id x \<noteq> el_id e) (allElements (mainDocument pg)))"
  shows "\<exists>d. filter (\<lambda>d. d_scrollData d \<noteq> None \<and> \<not> d_isMainScrollbar d \<and> d_node d = el_id e)
                (findViewportInteractiveElements a pg c) = [d]
             \<and> map_option maxScrollTop (d_scrollData d) = Some 1600"
proof -
  let ?Q = "\<lambda>d. d_scrollData d \<noteq> None \<and> \<not> d_isMainScrollbar d \<and> d_node d = el_id e"
  let ?els = "allElements (mainDocument pg)"
  let ?s2 = "foldl (processIframe a pg c)
               (processElementsInDocument a pg c (mainDocument pg) None initialState)
               (querySelectorAll ?els iframeSelector)"
  \<comment> \<open>the element occurs once in the scan\<close>
  from mem obtain ys zs where split: "?els = ys @ e # zs"
    by (auto dest: split_list)
  from ids have "el_id e \<notin> el_id ` (set ys \<union> set zs)"
    unfolding split by auto
  then have others: "\<And>x. x \<in> set ys \<union> set zs \<Longrightarrow> el_id x \<noteq> el_id e"
    by (metis imageI)
  have tw: "takeWhile (\<lambda>x. el_id x \<noteq> el_id e) ?els = ys"
    unfolding split using others by (simp add: takeWhile_append2)
  \<comment> \<open>up to the element: no descriptor of it, and every scrollbar entry stems from \<open>ys\<close>\<close>
  let ?sy = "foldl (scanScrollable a pg c) ?s2 ys"
  have q2: "filter ?Q (result ?s2) = []"
    using before_scan_no_scroll_descriptors [of a pg c "querySelectorAll ?els iframeSelector"]
    unfolding list_all_iff by (auto simp: filter_empty_conv)
  have qy: "filter ?Q (result ?sy) = []"
    using scan_others_filter [of ys e a pg c ?s2] others q2 by simp
  have "scrollEntriesFrom a pg c {} ?s2"
    using before_scan_noScrollbar [of a pg c "querySelectorAll ?els iframeSelector"]
    unfolding scrollEntriesFrom_def noScrollbarEntries_def list_all_iff by blast
  then have "scrollEntriesFrom a pg c ({} \<union> set ys) ?sy"
    by (rule foldl_scanScrollable_entries)
  then have entries: "scrollEntriesFrom a pg c (set ys) ?sy"
    by simp
  \<comment> \<open>at the element\<close>
  have vert: "hasVerticalScroll c e"
    using sh ch oy by (simp add: hasVerticalScroll_def permitsScrolling_def)
  have cand: "scrollRegionCandidate a pg c e"
    using vp vis top cw ch gw gh vert by (simp add: scrollRegionCandidate_def)
  have nodup: "\<not> list_ex (overlapsScrollbarEntry rect) (processedElementAreas ?sy)"
  proof
    assume "list_ex (overlapsScrollbarEntry rect) (processedElementAreas ?sy)"
    then obtain pa where pa: "pa \<in> set (processedElementAreas ?sy)"
      and ov: "overlapsScrollbarEntry rect pa"
      unfolding list_ex_iff by blast
    from ov have "pa_isScrollbar pa"
      by (simp add: overlapsScrollbarEntry_def split: if_splits)
    with entries pa obtain e' r' where e': "e' \<in> set ys" "scrollRegionCandidate a pg c e'"
      "getCachedBoundingRect c e' = Some r'" "pa = scrollbarEntry e' r'"
      unfolding scrollEntriesFrom_def by blast
    from earlier e'(1) have "\<not> (scrollRegionCandidate a pg c e'
                      \<and> (case getCachedBoundingRect c e' of
                            None \<Rightarrow> False
                          | Some r' \<Rightarrow> overlapsScrollbarEntry rect (scrollbarEntry e' r')))"
      unfolding tw list_all_iff by blast
    with e'(2,3,4) ov show False
      by simp
  qed
  let ?d = "scrollbarData c e rect (highlightIndex ?sy)"
  let ?se = "scanScrollable a pg c ?sy e"
  have se: "?se = pushResult ?d
                    (?sy\<lparr>processedElementAreas :=
                           processedElementAreas ?sy @ [scrollbarEntry e rect]\<rparr>)"
    using scanScrollable_candidate [OF cand rect, of ?sy] nodup by simp
  have dQ: "?Q ?d"
    by (simp add: scrollbarData_def)
  have qe: "filter ?Q (result ?se) = [?d]"
    using qy dQ by (simp add: se pushResult_def)
  \<comment> \<open>after the element\<close>
  let ?s3 = "findScrollableElements a pg c ?s2"
  have s3: "?s3 = foldl (scanScrollable a pg c) ?se zs"
    by (simp add: findScrollableElements_def split)
  have q3: "filter ?Q (result ?s3) = [?d]"
    unfolding s3 using scan_others_filter [of zs e a pg c ?se] others qe by simp
  have "filter ?Q (result (findMainBrowserScrollbars pg ?s3)) = filter ?Q (result ?s3)"
    by (rule appended_filter [OF appended_mono [OF appended_findMainBrowserScrollbars]])
       (simp add: mainScrollbarDescriptor_def)
  with q3 have "filter ?Q (findViewportInteractiveElements a pg c) = [?d]"
    by (simp add: findViewportInteractiveElements_def)
  moreover have "map_option maxScrollTop (d_scrollData ?d) = Some 1600"
    using sh ch by (simp add: scrollbarData_def)
  ultimately show ?thesis
    by blast
qed

text \<open>The scrollable pane of the example page, with its 15 pixel gutter.\<close>

theorem scroll_region_descriptor_witness:
  "map (\<lambda>d. map_option maxScrollTop (d_scrollData d))
     (filter (\<lambda>d. d_scrollData d \<noteq> None \<and> \<not> d_isMainScrollbar d \<and> d_node d = el_id scrollPane)
        (findViewportInteractiveElements args0 pageAll freshCache))
   = [Some 1600]"
proof -
  have ids: "distinct (map el_id (allElements (mainDocument pageAll)))"
    by code_simp
  have mem: "scrollPane \<in> set (allElements (mainDocument pageAll))"
    by (simp add: pageAll_def)
  have vp: "isInViewport args0 (win pageAll) freshCache scrollPane"
    by code_simp
  have vis: "isElementVisible freshCache scrollPane"
    by code_simp
  have top: "isTopElement (win pageAll) (mainDocument pageAll) freshCache scrollPane"
    by code_simp
  have sh: "scrollHeight (el_props scrollPane) = 2000"
    by code_simp
  have ch: "clientHeight (el_props scrollPane) = 400"
    by code_simp
  have oy: "overflowY (getCachedComputedStyle freshCache scrollPane) = ''auto''"
    by code_simp
  have cw: "10 \<le> clientWidth (el_props scrollPane)"
    by code_simp
  have gw: "1 \<le> offsetWidth (el_props scrollPane) - clientWidth (el_props scrollPane)"
    by code_simp
  have gh: "\<not> (hasHorizontalScroll freshCache scrollPane
               \<and> offsetHeight (el_props scrollPane) - clientHeight (el_props scrollPane) < 1)"
    by code_simp
  have rect: "getCachedBoundingRect freshCache scrollPane = Some (box 400 0 300 400)"
    by code_simp
  have earlier: "list_all
           (\<lambda>e'. \<not> (scrollRegionCandidate args0 pageAll freshCache e'
                      \<and> (case getCachedBoundingRect freshCache e' of
                            None \<Rightarrow> False
                          | Some r' \<Rightarrow> overlapsScrollbarEntry (box 400 0 300 400)
                                        (scrollbarEntry e' r'))))
           (takeWhile (\<lambda>x. el_id x \<noteq> el_id scrollPane) (allElements (mainDocument pageAll)))"
    by code_simp
  from scroll_region_descriptor [OF ids mem vp vis top sh ch oy cw gw gh rect earlier]
  obtain d where d: "filter (\<lambda>d. d_scrollData d \<noteq> None \<and> \<not> d_isMainScrollbar d
                                  \<and> d_node d = el_id scrollPane)
                       (findViewportInteractiveElements args0 pageAll freshCache) = [d]"
    and m: "map_option maxScrollTop (d_scrollData d) = Some 1600"
    by blast
  from d m show ?thesis
    by simp
qed

text \<open>
  C9 as stated fails for overlay scrollbars: the pane is in the viewport, visible and
  topmost, with \<open>scrollHeight = 2000\<close>, \<open>clientHeight = 400\<close> and \<open>overflow-y: auto\<close>,
  but its gutter is 0 pixels wide and the pass returns no descriptor.
\<close>

theorem overlay_scrollbar_counterexample:
  "isInViewport args0 (win pageOverlay) freshCache overlayPane
   \<and> isElementVisible freshCache overlayPane
   \<and> isTopElement (win pageOverlay) (mainDocument pageOverlay) freshCache overlayPane
   \<and> scrollHeight (el_props overlayPane) = 2000
   \<and> clientHeight (el_props overlayPane) = 400
   \<and> overflowY (getCachedComputedStyle freshCache overlayPane) = ''auto''
   \<and> offsetWidth (el_props overlayPane) - clientWidth (el_props overlayPane) = 0
   \<and> findViewportInteractiveElements args0 pageOverlay freshCache = []"
  by code_simp

subsection \<open>The viewport sentinel\<close>





















end
